theory Spec2Isabelle
  imports Main
begin

section \<open>Go string helpers used by the repository\<close>

text \<open>
  Go strings are byte sequences; they are modelled as \<open>string\<close> (a \<open>char list\<close>),
  and the text is taken to be ASCII where case or white space matters.
  Each helper below is the standard-library function of the same name, restricted to the
  way the repository calls it.
\<close>

definition strings_Trim :: "string \<Rightarrow> string \<Rightarrow> string" where
  \<comment> \<open>\<open>strings.Trim(s, cutset)\<close>: drop leading and trailing characters that are in the cutset.\<close>
  "strings_Trim s cutset =
     rev (dropWhile (\<lambda>c. c \<in> set cutset) (rev (dropWhile (\<lambda>c. c \<in> set cutset) s)))"

definition strings_HasPrefix :: "string \<Rightarrow> string \<Rightarrow> bool" where
  "strings_HasPrefix s p = (take (length p) s = p)"

definition strings_HasSuffix :: "string \<Rightarrow> string \<Rightarrow> bool" where
  "strings_HasSuffix s p = (length p \<le> length s \<and> drop (length s - length p) s = p)"

definition strings_TrimSuffix :: "string \<Rightarrow> string \<Rightarrow> string" where
  "strings_TrimSuffix s p = (if strings_HasSuffix s p then take (length s - length p) s else s)"

definition contains_char :: "string \<Rightarrow> char \<Rightarrow> bool" where
  \<comment> \<open>\<open>strings.Contains(s, sub)\<close> for a one-character \<open>sub\<close>, the only way it is called.\<close>
  "contains_char s c = (c \<in> set s)"

fun split_char :: "char \<Rightarrow> string \<Rightarrow> string list" where
  \<comment> \<open>\<open>strings.Split(s, sep)\<close> for a one-character separator: always at least one part.\<close>
  "split_char c [] = [[]]"
| "split_char c (x # xs) =
     (if x = c then [] # split_char c xs
      else (case split_char c xs of p # ps \<Rightarrow> (x # p) # ps | [] \<Rightarrow> [[x]]))"

fun splitN_char :: "char \<Rightarrow> nat \<Rightarrow> string \<Rightarrow> string list" where
  \<comment> \<open>\<open>strings.SplitN(s, sep, n)\<close> for a one-character separator and \<open>n \<ge> 0\<close>: at most
      \<open>n\<close> parts, the last one being the unsplit remainder.\<close>
  "splitN_char c 0 s = []"
| "splitN_char c (Suc 0) s = [s]"
| "splitN_char c (Suc (Suc n)) s =
     (if c \<in> set s
      then takeWhile (\<lambda>x. x \<noteq> c) s # splitN_char c (Suc n) (tl (dropWhile (\<lambda>x. x \<noteq> c) s))
      else [s])"

fun strings_Join :: "string list \<Rightarrow> string \<Rightarrow> string" where
  "strings_Join [] sep = []"
| "strings_Join [p] sep = p"
| "strings_Join (p # q # ps) sep = p @ sep @ strings_Join (q # ps) sep"

definition ascii_upper :: string where
  "ascii_upper = ''ABCDEFGHIJKLMNOPQRSTUVWXYZ''"

definition ascii_lower :: string where
  "ascii_lower = ''abcdefghijklmnopqrstuvwxyz''"

definition ascii_digit :: string where
  "ascii_digit = ''0123456789''"

definition lower_char :: "char \<Rightarrow> char" where
  "lower_char c = (case map_of (zip ascii_upper ascii_lower) c of Some l \<Rightarrow> l | None \<Rightarrow> c)"

definition strings_ToLower :: "string \<Rightarrow> string" where
  \<comment> \<open>\<open>strings.ToLower\<close> on ASCII text: \<open>A\<close>..\<open>Z\<close> become \<open>a\<close>..\<open>z\<close>.\<close>
  "strings_ToLower s = map lower_char s"

definition is_space :: "char \<Rightarrow> bool" where
  \<comment> \<open>The ASCII white space of \<open>unicode.IsSpace\<close>: tab, newline, vertical tab, form feed,
      carriage return, space.\<close>
  "is_space c = (c \<in> set [CHR 0x09, CHR 0x0A, CHR 0x0B, CHR 0x0C, CHR 0x0D, CHR 0x20])"

definition strings_TrimSpace :: "string \<Rightarrow> string" where
  "strings_TrimSpace s = rev (dropWhile is_space (rev (dropWhile is_space s)))"

section \<open>Go path helpers (\<open>path/filepath\<close> on a system whose separator is the slash)\<close>

fun clean_parts :: "bool \<Rightarrow> string list \<Rightarrow> string list \<Rightarrow> string list" where
  \<comment> \<open>The element loop of \<open>filepath.Clean\<close>; the second argument is the output so far,
      last element first. Empty elements and \<open>.\<close> are dropped; \<open>..\<close> removes the
      previous real element, is dropped at the root, and is kept in a relative path that
      has nothing left to remove.\<close>
  "clean_parts rooted out [] = rev out"
| "clean_parts rooted out (p # ps) =
     (if p = [] \<or> p = ''.'' then clean_parts rooted out ps
      else if p = ''..'' then
        (case out of
           q # qs \<Rightarrow> if q = ''..'' then clean_parts rooted (p # out) ps
                     else clean_parts rooted qs ps
         | [] \<Rightarrow> if rooted then clean_parts rooted out ps
                 else clean_parts rooted (p # out) ps)
      else clean_parts rooted (p # out) ps)"

definition filepath_Clean :: "string \<Rightarrow> string" where
  "filepath_Clean path =
     (if path = [] then ''.''
      else let rooted = (hd path = CHR ''/'');
               body = strings_Join (clean_parts rooted [] (split_char CHR ''/'' path)) ''/'';
               res = (if rooted then ''/'' @ body else body)
           in if res = [] then ''.'' else res)"

definition last_slash_prefix :: "string \<Rightarrow> string" where
  \<comment> \<open>\<open>path[:i+1]\<close> for the last slash at \<open>i\<close>; empty when there is no slash.\<close>
  "last_slash_prefix path = rev (dropWhile (\<lambda>c. c \<noteq> CHR ''/'') (rev path))"

definition filepath_Dir :: "string \<Rightarrow> string" where
  "filepath_Dir path = filepath_Clean (last_slash_prefix path)"

definition filepath_Base :: "string \<Rightarrow> string" where
  "filepath_Base path =
     (if path = [] then ''.''
      else let stripped = rev (dropWhile (\<lambda>c. c = CHR ''/'') (rev path));
               b = rev (takeWhile (\<lambda>c. c \<noteq> CHR ''/'') (rev stripped))
           in if b = [] then ''/'' else b)"

fun ext_rev :: "string \<Rightarrow> string \<Rightarrow> string" where
  \<comment> \<open>The backwards scan of \<open>filepath.Ext\<close>: the first argument is the unread part of
      the path reversed, the second what was read. It stops at a slash (no extension) or
      at the final dot.\<close>
  "ext_rev [] acc = []"
| "ext_rev (c # cs) acc =
     (if c = CHR ''/'' then []
      else if c = CHR ''.'' then c # acc
      else ext_rev cs (c # acc))"

definition filepath_Ext :: "string \<Rightarrow> string" where
  "filepath_Ext path = ext_rev (rev path) []"

definition filepath_Join :: "string list \<Rightarrow> string" where
  \<comment> \<open>\<open>filepath.Join\<close>: empty elements are ignored, the rest joined and cleaned.\<close>
  "filepath_Join elems =
     (let ne = filter (\<lambda>e. e \<noteq> []) elems
      in if ne = [] then [] else filepath_Clean (strings_Join ne ''/''))"

definition filepath_ToSlash :: "string \<Rightarrow> string" where
  "filepath_ToSlash path = path"

section \<open>Regular expressions of \<open>regexp\<close>, as far as the validator uses them\<close>

datatype rx =
    Zero
  | One
  | Cls string          \<comment> \<open>a character of the listed ones\<close>
  | NotCls string       \<comment> \<open>a character not among the listed ones\<close>
  | Seq rx rx
  | Alt rx rx
  | Star rx

fun Lit :: "string \<Rightarrow> rx" where
  "Lit [] = One"
| "Lit [c] = Cls [c]"
| "Lit (c # cs) = Seq (Cls [c]) (Lit cs)"

definition Plus :: "rx \<Rightarrow> rx" where
  "Plus r = Seq r (Star r)"

definition Opt :: "rx \<Rightarrow> rx" where
  "Opt r = Alt r One"

fun Alts :: "rx list \<Rightarrow> rx" where
  "Alts [] = Zero"
| "Alts [r] = r"
| "Alts (r # rs) = Alt r (Alts rs)"

primrec nullable :: "rx \<Rightarrow> bool" where
  "nullable Zero = False"
| "nullable One = True"
| "nullable (Cls cs) = False"
| "nullable (NotCls cs) = False"
| "nullable (Seq r s) = (nullable r \<and> nullable s)"
| "nullable (Alt r s) = (nullable r \<or> nullable s)"
| "nullable (Star r) = True"

fun mkSeq :: "rx \<Rightarrow> rx \<Rightarrow> rx" where
  "mkSeq Zero s = Zero"
| "mkSeq One s = s"
| "mkSeq r s = Seq r s"

fun mkAlt :: "rx \<Rightarrow> rx \<Rightarrow> rx" where
  "mkAlt Zero s = s"
| "mkAlt r Zero = r"
| "mkAlt r s = Alt r s"

primrec deriv :: "char \<Rightarrow> rx \<Rightarrow> rx" where
  "deriv c Zero = Zero"
| "deriv c One = Zero"
| "deriv c (Cls cs) = (if c \<in> set cs then One else Zero)"
| "deriv c (NotCls cs) = (if c \<in> set cs then Zero else One)"
| "deriv c (Seq r s) =
     (if nullable r then mkAlt (mkSeq (deriv c r) s) (deriv c s) else mkSeq (deriv c r) s)"
| "deriv c (Alt r s) = mkAlt (deriv c r) (deriv c s)"
| "deriv c (Star r) = mkSeq (deriv c r) (Star r)"

fun rx_match :: "rx \<Rightarrow> string \<Rightarrow> bool" where
  \<comment> \<open>The whole string matches: the pattern anchored with \<open>^\<close> and \<open>$\<close>.\<close>
  "rx_match r [] = nullable r"
| "rx_match r (c # cs) = rx_match (deriv c r) cs"

fun rx_match_end :: "rx \<Rightarrow> string \<Rightarrow> bool" where
  \<comment> \<open>Some suffix of the string matches: the pattern anchored with \<open>$\<close> only.\<close>
  "rx_match_end r [] = nullable r"
| "rx_match_end r (c # cs) = (rx_match r (c # cs) \<or> rx_match_end r cs)"

section \<open>validator: the structural policy on changed paths\<close>

text \<open>
  The package is \<open>src/unnamed/part_000\<close>; line numbers are those of that file.
  The validator's progress lines on standard output (and the flag \<open>hasFileError\<close> that
  only decides whether one of them is printed) are not part of the model; everything that
  reaches the returned pair is.
\<close>

definition name_class :: rx where
  \<comment> \<open>\<open>[a-zA-Z0-9_.,-]\<close>\<close>
  "name_class = Cls (ascii_lower @ ascii_upper @ ascii_digit @ ''_.,-'')"

definition projectExtRegex :: rx where
  \<comment> \<open>\<open>\.(flp|rpp|song|project|cpr|ptx|logicx|als)$\<close>, to be used with \<open>rx_match_end\<close>\<close>
  "projectExtRegex =
     Seq (Lit ''.'') (Alts (map Lit
       [''flp'', ''rpp'', ''song'', ''project'', ''cpr'', ''ptx'', ''logicx'', ''als'']))"

definition exportExtRegex :: rx where
  \<comment> \<open>\<open>\.(mp3|wav|flac)$\<close>, to be used with \<open>rx_match_end\<close>\<close>
  "exportExtRegex = Seq (Lit ''.'') (Alts (map Lit [''mp3'', ''wav'', ''flac'']))"

definition exportStatusRegex :: rx where
  \<comment> \<open>\<open>^(progress|unmixed|rough|mixed|finalmix|roughmaster|mastered|finalmaster)$\<close>\<close>
  "exportStatusRegex = Alts (map Lit
     [''progress'', ''unmixed'', ''rough'', ''mixed'', ''finalmix'', ''roughmaster'',
      ''mastered'', ''finalmaster''])"

definition projectFolderRegex :: rx where
  \<comment> \<open>\<open>^(N+)-(N+(?:,N+)*)-(N+)-([0-9]{2,3})bpm-prodby\.(N+)$\<close> with \<open>N\<close> the name class\<close>
  "projectFolderRegex =
     Seq (Plus name_class)
    (Seq (Lit ''-'')
    (Seq (Seq (Plus name_class) (Star (Seq (Lit '','') (Plus name_class))))
    (Seq (Lit ''-'')
    (Seq (Plus name_class)
    (Seq (Lit ''-'')
    (Seq (Seq (Cls ascii_digit) (Seq (Cls ascii_digit) (Opt (Cls ascii_digit))))
    (Seq (Lit ''bpm-prodby'')
    (Seq (Lit ''.'')
         (Plus name_class)))))))))"

definition exportNameSubmatch :: "string \<Rightarrow> string list" where
  \<comment> \<open>\<open>FindStringSubmatch\<close> of \<open>^(.*)-([^-]+)$\<close>: no match gives the empty list, a
      match the whole text and the two groups. The second group has no hyphen, so the
      hyphen of the pattern is the last one of the text; the text after it must be
      non-empty, and the text before it must be free of newlines (the dot does not match
      a newline).\<close>
  "exportNameSubmatch s =
     (let status = rev (takeWhile (\<lambda>c. c \<noteq> CHR ''-'') (rev s));
          base = rev (drop 1 (dropWhile (\<lambda>c. c \<noteq> CHR ''-'') (rev s)))
      in if CHR ''-'' \<in> set s \<and> status \<noteq> [] \<and> CHR 0x0A \<notin> set base
         then [s, base, status] else [])"

definition allowedRootFiles :: "string \<Rightarrow> bool" where
  "allowedRootFiles base = (base \<in> set [''README.md'', ''.gitignore'', ''config.toml''])"

definition requiredRootFiles :: "string list" where
  "requiredRootFiles = [''README.md'', ''.gitignore'']"

record vstate =
  errors :: "string list"
  isValid :: bool

definition addError :: "string \<Rightarrow> vstate \<Rightarrow> vstate" where
  \<comment> \<open>The closure \<open>addError\<close>: append the formatted message and clear the flag.\<close>
  "addError msg st = st\<lparr>errors := errors st @ [msg], isValid := False\<rparr>"

definition addErrorIf :: "bool \<Rightarrow> string \<Rightarrow> vstate \<Rightarrow> vstate" where
  \<comment> \<open>\<open>if cond { addError(...) }\<close>\<close>
  "addErrorIf cond msg st = (if cond then addError msg st else st)"

definition quoted :: "string \<Rightarrow> string" where
  \<comment> \<open>\<open>'%s'\<close> in a format string\<close>
  "quoted s = [CHR 0x27] @ s @ [CHR 0x27]"

definition checkProjectFile :: "string \<Rightarrow> string list \<Rightarrow> string \<Rightarrow> vstate \<Rightarrow> vstate" where
  \<comment> \<open>Lines 83-94: a file directly in the project folder.\<close>
  "checkProjectFile projectFolder parts file st =
     (let baseName = last parts;
          ext = filepath_Ext baseName;
          baseNameNoExt = strings_TrimSuffix baseName ext;
          st1 = addErrorIf (baseNameNoExt \<noteq> projectFolder)
                  (''Project filename base must match folder name. Expected '' @
                   [CHR 0x27] @ projectFolder @ ''.*'' @ [CHR 0x27] @ '', found '' @
                   quoted baseName @ '' in path '' @ quoted file) st
      in addErrorIf (\<not> rx_match_end projectExtRegex (strings_ToLower baseName))
           (''Invalid file extension for project file '' @ quoted baseName @
            ''. Allowed: .flp, .rpp, .song, .project, .cpr, .ptx, .logicx, .als. Path: '' @
            quoted file) st1)"

definition checkExportFile :: "string \<Rightarrow> string list \<Rightarrow> string \<Rightarrow> vstate \<Rightarrow> vstate" where
  \<comment> \<open>Lines 96-129: a path below \<open>exports/\<close> of the project folder.\<close>
  "checkExportFile projectFolder parts file st =
     (let st1 = addErrorIf (parts ! 3 \<noteq> ''exports'')
                  (quoted ''exports'' @ '' directory component must be lowercase: '' @
                   quoted (parts ! 3) @ '' in path '' @ quoted file) st
      in if length parts > 4 then
           (let exportBaseName = last parts;
                exportExt = filepath_Ext exportBaseName;
                exportBaseNameNoExt = strings_TrimSuffix exportBaseName exportExt;
                match = exportNameSubmatch exportBaseNameNoExt;
                st2 = (if length match \<noteq> 3 then
                         addError (''Export filename '' @ quoted exportBaseName @
                           '' does not match expected format '' @
                           quoted ''[project_base]-[status]'' @ ''. Path: '' @ quoted file) st1
                       else
                         (let exportBase = match ! 1;
                              exportStatus = match ! 2;
                              st1a = addErrorIf (exportBase \<noteq> projectFolder)
                                (''Export filename base must match project folder name. Expected '' @
                                 [CHR 0x27] @ projectFolder @ ''-[status].*'' @ [CHR 0x27] @
                                 '', found '' @ quoted exportBaseName @ '' in path '' @ quoted file) st1
                          in addErrorIf (\<not> rx_match exportStatusRegex exportStatus)
                               (''Invalid status identifier '' @ quoted exportStatus @
                                '' in export filename '' @ quoted exportBaseName @
                                ''. Allowed: progress, unmixed, rough, mixed, finalmix, roughmaster, mastered, finalmaster. Path: '' @
                                quoted file) st1a))
            in addErrorIf (\<not> rx_match_end exportExtRegex (strings_ToLower exportBaseName))
                 (''Invalid file extension for export file '' @ quoted exportBaseName @
                  ''. Allowed: .mp3, .wav, .flac. Path: '' @ quoted file) st2)
         else st1)"

definition checkProjectsPath :: "string list \<Rightarrow> string \<Rightarrow> vstate \<Rightarrow> vstate" where
  \<comment> \<open>Lines 69-141: a path below \<open>src/projects\<close>.\<close>
  "checkProjectsPath parts file st =
     (if length parts > 2 then
        (let projectFolder = parts ! 2 in
         if \<not> rx_match projectFolderRegex projectFolder then
           addError (''Invalid project folder name format: '' @ quoted projectFolder @
                     '' in path '' @ quoted file) st
         else
           (let pathInsideProject = strings_Join (drop 3 parts) ''/'' in
            if pathInsideProject = [] then st
            else if \<not> contains_char pathInsideProject CHR ''/'' then
              checkProjectFile projectFolder parts file st
            else if strings_HasPrefix pathInsideProject ''exports/'' then
              checkExportFile projectFolder parts file st
            else
              addError (''Unexpected file or directory inside project folder: '' @
                        quoted pathInsideProject @ '' in path '' @ quoted file @
                        ''. Only project file and '' @ quoted ''exports/'' @
                        '' dir allowed directly under '' @
                        [CHR 0x27] @ projectFolder @ ''/'' @ [CHR 0x27]) st))
      else
        addError (''Files are not allowed directly inside '' @ quoted ''src/projects/'' @
                  ''. Place them in a named project folder: '' @ quoted file) st)"

definition checkSrcPath :: "string \<Rightarrow> string \<Rightarrow> vstate \<Rightarrow> vstate" where
  \<comment> \<open>Lines 61-146: a path that starts with \<open>src/\<close>.\<close>
  "checkSrcPath filePath file st =
     (let parts = split_char CHR ''/'' filePath;
          st1 = addErrorIf (parts ! 0 \<noteq> ''src'')
                  (quoted ''src'' @ '' directory component must be lowercase: '' @
                   quoted (parts ! 0) @ '' in path '' @ quoted file) st
      in if length parts > 1 \<and> parts ! 1 = ''projects'' then checkProjectsPath parts file st1
         else st1)"

definition checkFile :: "string \<Rightarrow> vstate \<Rightarrow> vstate" where
  \<comment> \<open>Lines 38-151: the body of the loop over the changed files.\<close>
  "checkFile file st =
     (let st1 = addErrorIf (contains_char file CHR '' '')
                  (''Path contains spaces: '' @ quoted file) st;
          filePath = filepath_ToSlash file;
          dir = filepath_ToSlash (filepath_Dir filePath);
          base = filepath_Base filePath
      in if dir = ''.'' then
           addErrorIf (\<not> allowedRootFiles base)
             (''Unexpected file in root directory: '' @ quoted file) st1
         else if strings_HasPrefix filePath ''src/'' then checkSrcPath filePath file st1
         else if dir \<noteq> ''.'' then
           addError (''Unexpected top-level file or directory: '' @ quoted file @ ''. Only '' @
                     quoted ''src/'' @ '', '' @ quoted ''README.md'' @ '', '' @ quoted ''config.toml'' @
                     '', '' @ quoted ''.gitignore'' @ '' allowed.'') st1
         else st1)"

definition requiredMissing :: "string \<Rightarrow> string" where
  \<comment> \<open>\<open>fmt.Sprintf("Required file '%s' not found in repository index.", reqFile)\<close>\<close>
  "requiredMissing reqFile =
     ''Required file '' @ quoted reqFile @ '' not found in repository index.''"

definition checkRequired :: "(string \<Rightarrow> string \<Rightarrow> bool) \<Rightarrow> string \<Rightarrow> string \<Rightarrow> vstate \<Rightarrow> vstate" where
  \<comment> \<open>Lines 164-167: the body of the loop over the required root files.
      \<open>CheckFileExists\<close> is \<open>gitutil.CheckFileExists\<close>: whether the index of the
      repository at \<open>repoPath\<close> has the file.\<close>
  "checkRequired CheckFileExists repoPath reqFile st =
     addErrorIf (\<not> CheckFileExists repoPath reqFile) (requiredMissing reqFile) st"

definition consistent :: "vstate \<Rightarrow> bool" where
  \<comment> \<open>The flag says exactly whether a violation was recorded.\<close>
  "consistent st = (isValid st = (errors st = []))"

definition Validate ::
  "(string \<Rightarrow> string \<Rightarrow> bool) \<Rightarrow> string \<Rightarrow> string list \<Rightarrow> bool \<times> string list" where
  "Validate CheckFileExists repoPath changedFiles =
     (let st0 = \<lparr>errors = [], isValid = True\<rparr>;
          st1 = (if changedFiles = [] then st0
                 else foldl (\<lambda>st file. checkFile file st) st0 changedFiles);
          st2 = foldl (\<lambda>st reqFile. checkRequired CheckFileExists repoPath reqFile st)
                  st1 requiredRootFiles
      in (isValid st2, errors st2))"

section \<open>backup/backup.go: the object key of \<open>RunBackup\<close>\<close>

definition backupFilename :: "string \<Rightarrow> string" where
  \<comment> \<open>\<open>fmt.Sprintf("commit-%s.tar.gz", commitHash)\<close>\<close>
  "backupFilename commitHash = ''commit-'' @ commitHash @ ''.tar.gz''"

definition s3Key :: "string \<Rightarrow> string \<Rightarrow> string" where
  \<comment> \<open>Lines 117-124: the key starts as the file name and gets the prefix only when the
      configured prefix is non-empty and still non-empty after trimming slashes.\<close>
  "s3Key prefix commitHash =
     (let fname = backupFilename commitHash in
      if prefix \<noteq> [] then
        (let cleanPrefix = strings_Trim prefix ''/'' in
         if cleanPrefix \<noteq> [] then cleanPrefix @ ''/'' @ fname else fname)
      else fname)"

section \<open>gitutil: the changed files of a commit\<close>

text \<open>
  The package is the second part of \<open>src/monitor/monitor.go\<close> (from line 223); line
  numbers are those of that file.
  Errors are modelled by their message: a call that can fail returns \<open>Inl message\<close>
  or \<open>Inr value\<close>, and a Go \<open>error\<close> result is \<open>None\<close> for \<open>nil\<close>.
  \<open>GetCurrentCommitHash\<close> and \<open>CheckFileExists\<close> read the repository through files
  and \<open>git\<close>; they enter the model as what they return.
\<close>

definition dropCR :: "string \<Rightarrow> string" where
  "dropCR l = (if l \<noteq> [] \<and> last l = CHR 0x0D then butlast l else l)"

definition ScanLines :: "string \<Rightarrow> string list" where
  \<comment> \<open>The tokens of a \<open>bufio.Scanner\<close> with the default split function: the text
      between newlines without one trailing carriage return; text after the last newline
      is a line only when it is not empty.\<close>
  "ScanLines out =
     (let segs = split_char CHR 0x0A out
      in map dropCR (if last segs = [] then butlast segs else segs))"

definition MaxScanTokenSize :: nat where
  "MaxScanTokenSize = 64 * 1024"

definition scanTooLong :: "string \<Rightarrow> bool" where
  \<comment> \<open>\<open>scanner.Err()\<close> is \<open>bufio.ErrTooLong\<close> when a line does not fit the scanner's
      buffer of \<open>MaxScanTokenSize\<close> bytes together with its newline.\<close>
  "scanTooLong out = list_ex (\<lambda>seg. length seg \<ge> MaxScanTokenSize) (split_char CHR 0x0A out)"

definition parseLine :: "string list \<Rightarrow> string \<Rightarrow> string list" where
  \<comment> \<open>Lines 298-324: the body of the scanner loop, from the files collected so far and
      the scanned text to the files collected after it.\<close>
  "parseLine files text =
     (let line = strings_TrimSpace text in
      if line \<noteq> [] then
        (let parts = splitN_char CHR 0x09 2 line in
         if length parts = 2 then
           (let status = parts ! 0; fileName = parts ! 1 in
            if strings_HasPrefix status ''R'' then
              (let renameParts = splitN_char CHR 0x09 3 line in
               if length renameParts = 3 then files @ [renameParts ! 2] else files)
            else if strings_HasPrefix status ''C'' then
              (let copyParts = splitN_char CHR 0x09 3 line in
               if length copyParts = 3 then files @ [copyParts ! 2] else files)
            else if status \<noteq> ''D'' then files @ [fileName]
            else files)
         else files)
      else files)"

definition GetChangedFilesInCommit ::
  "(string \<Rightarrow> string \<Rightarrow> string + string) \<Rightarrow> string \<Rightarrow> string \<Rightarrow> string + string list" where
  \<comment> \<open>Lines 287-329. \<open>gitShow repoPath commitHash\<close> is the outcome of running
      \<open>git -C repoPath show --pretty= --name-status commitHash\<close>: its standard output,
      or the error of the command.\<close>
  "GetChangedFilesInCommit gitShow repoPath commitHash =
     (case gitShow repoPath commitHash of
        Inl err \<Rightarrow> Inl (''git show failed for commit '' @ commitHash @ '': '' @ err)
      | Inr out \<Rightarrow>
          if scanTooLong out
          then Inl ''error scanning git show output: bufio.Scanner: token too long''
          else Inr (foldl parseLine [] (ScanLines out)))"

section \<open>backup: the compression stage \<open>GzipPipe\<close> and \<open>RunBackup\<close>\<close>

text \<open>
  The compression stage is the first \<open>GzipPipe\<close> of \<open>backup/backup.go\<close> (lines 26-56),
  built on \<open>io.Pipe\<close>. The pipe is synchronous, so its reader sees the written chunks
  in the order of the writes and then the state the writer closed it with; that sequence
  is what the model keeps. A source is the chunks its reads return, followed by the end
  of the stream: \<open>None\<close> for \<open>io.EOF\<close>, \<open>Some e\<close> for a read that fails with \<open>e\<close>.
  The compressor is a parameter: \<open>gzWrite\<close> takes its state and the bytes written to
  it and returns the new state and the bytes it passes on (possibly none), \<open>gzClose\<close>
  returns the bytes flushed by \<open>Close\<close>.
\<close>

datatype read_result = Data string | EOF | Failed string | WouldBlock

record pipe =
  queue :: "string list"              \<comment> \<open>chunks written and not yet read\<close>
  wclosed :: "string option option"   \<comment> \<open>\<open>Some err\<close> once the write end is closed with \<open>err\<close>\<close>
  rclosed :: bool                     \<comment> \<open>the read end is closed\<close>

definition io_Pipe :: pipe where
  "io_Pipe = \<lparr>queue = [], wclosed = None, rclosed = False\<rparr>"

definition ErrClosedPipe :: string where
  "ErrClosedPipe = ''io: read/write on closed pipe''"

definition pw_Write :: "pipe \<Rightarrow> string \<Rightarrow> pipe \<times> string option" where
  "pw_Write p bytes =
     (if rclosed p then (p, Some ErrClosedPipe)
      else (p\<lparr>queue := queue p @ [bytes]\<rparr>, None))"

definition pw_CloseWithError :: "pipe \<Rightarrow> string option \<Rightarrow> pipe" where
  \<comment> \<open>The first close decides what the reader sees; a later one changes nothing.\<close>
  "pw_CloseWithError p err = (if wclosed p = None then p\<lparr>wclosed := Some err\<rparr> else p)"

definition pr_Read :: "pipe \<Rightarrow> pipe \<times> read_result" where
  "pr_Read p =
     (case queue p of
        d # ds \<Rightarrow> (p\<lparr>queue := ds\<rparr>, Data d)
      | [] \<Rightarrow>
          (case wclosed p of
             None \<Rightarrow> (p, WouldBlock)
           | Some None \<Rightarrow> (p, EOF)
           | Some (Some e) \<Rightarrow> (p, Failed e)))"

definition pr_Close :: "pipe \<Rightarrow> pipe" where
  "pr_Close p = p\<lparr>rclosed := True\<rparr>"

fun sink_reads :: "nat \<Rightarrow> pipe \<Rightarrow> read_result list" where
  \<comment> \<open>What a reader sees that reads until the first result that is not data, with at
      most the given number of reads.\<close>
  "sink_reads 0 p = []"
| "sink_reads (Suc n) p =
     (case pr_Read p of
        (p', Data d) \<Rightarrow> Data d # sink_reads n p'
      | (p', r) \<Rightarrow> [r])"

definition gz_emit :: "pipe \<Rightarrow> string \<Rightarrow> pipe \<times> string option" where
  \<comment> \<open>The compressor writes to the pipe only when it has bytes to pass on.\<close>
  "gz_emit p bytes = (if bytes = [] then (p, None) else pw_Write p bytes)"

fun io_Copy ::
  "('g \<Rightarrow> string \<Rightarrow> 'g \<times> string) \<Rightarrow> 'g \<Rightarrow> pipe \<Rightarrow> string list \<Rightarrow> string option
     \<Rightarrow> 'g \<times> pipe \<times> string option" where
  \<comment> \<open>\<open>io.Copy(gzipWriter, src)\<close>: the end of the source ends the copy without an
      error, a failed read or a failed write ends it with that error.\<close>
  "io_Copy gzWrite g p [] ending = (g, p, ending)"
| "io_Copy gzWrite g p (chunk # chunks) ending =
     (case gzWrite g chunk of
        (g', bytes) \<Rightarrow>
          (case gz_emit p bytes of
             (p', Some werr) \<Rightarrow> (g', p', Some werr)
           | (p', None) \<Rightarrow> io_Copy gzWrite g' p' chunks ending))"

definition transform ::
  "('g \<Rightarrow> string \<Rightarrow> 'g \<times> string) \<Rightarrow> ('g \<Rightarrow> string) \<Rightarrow> 'g
     \<Rightarrow> string list \<times> string option \<Rightarrow> pipe \<Rightarrow> pipe" where
  \<comment> \<open>Lines 33-52: the goroutine. After the copy the deferred function closes the
      compressor, keeps the first error, and closes the write end with it.\<close>
  "transform gzWrite gzClose g0 src p =
     (case io_Copy gzWrite g0 p (fst src) (snd src) of
        (g, p1, err) \<Rightarrow>
          (case gz_emit p1 (gzClose g) of
             (p2, cerr) \<Rightarrow>
               pw_CloseWithError p2 (if err = None \<and> cerr \<noteq> None then cerr else err)))"

definition GzipPipe ::
  "('g \<Rightarrow> string \<Rightarrow> 'g \<times> string) \<Rightarrow> ('g \<Rightarrow> string) \<Rightarrow> 'g
     \<Rightarrow> string list \<times> string option \<Rightarrow> pipe" where
  \<comment> \<open>The read end handed to the caller, in the state the goroutine leaves it in when
      the caller keeps the read end open.\<close>
  "GzipPipe gzWrite gzClose g0 src = transform gzWrite gzClose g0 src io_Pipe"

definition body_reads :: "pipe \<Rightarrow> read_result list" where
  \<comment> \<open>Everything a reader of the read end sees up to the end of the stream.\<close>
  "body_reads p = sink_reads (Suc (length (queue p))) p"

record BackupConfig =
  Bucket :: string
  EndpointURL :: string
  Region :: string
  Prefix :: string
  AccessKeyID :: string
  SecretKey :: string

datatype event =
    EvLock                        \<comment> \<open>\<open>processingMu.TryLock()\<close> succeeded\<close>
  | EvUnlock                      \<comment> \<open>\<open>processingMu.Unlock()\<close>\<close>
  | EvQueryHead                   \<comment> \<open>\<open>gitutil.GetCurrentCommitHash\<close> was called\<close>
  | EvAssign string               \<comment> \<open>\<open>lastKnownHash\<close> was assigned this value\<close>
  | EvChangedFiles string         \<comment> \<open>\<open>gitutil.GetChangedFilesInCommit\<close> was called for this commit\<close>
  | EvValidate "string list"      \<comment> \<open>\<open>validator.Validate\<close> was called with these files\<close>
  | EvRunBackup string            \<comment> \<open>\<open>backup.RunBackup\<close> was called for this commit\<close>
  | EvPutObject string string     \<comment> \<open>\<open>s3Client.PutObject\<close> was called with this bucket and key\<close>

record 'g world =
  headCommit :: "string \<Rightarrow> string + string"
    \<comment> \<open>\<open>gitutil.GetCurrentCommitHash(repoPath)\<close>\<close>
  gitShow :: "string \<Rightarrow> string \<Rightarrow> string + string"
    \<comment> \<open>the \<open>git show\<close> command of \<open>GetChangedFilesInCommit\<close>\<close>
  CheckFileExists :: "string \<Rightarrow> string \<Rightarrow> bool"
    \<comment> \<open>\<open>gitutil.CheckFileExists(repoPath, filePath)\<close>\<close>
  loadDefaultConfig :: "BackupConfig \<Rightarrow> string option"
    \<comment> \<open>the error of \<open>awsConfig.LoadDefaultConfig\<close>\<close>
  stdoutPipe :: "string option"
    \<comment> \<open>the error of \<open>cmdArchive.StdoutPipe()\<close>\<close>
  cmdStart :: "string option"
    \<comment> \<open>the error of \<open>cmdArchive.Start()\<close>\<close>
  archiveStream :: "string \<Rightarrow> string \<Rightarrow> string list \<times> string option"
    \<comment> \<open>the standard output of \<open>git archive\<close> for a repository path and commit\<close>
  gzWrite :: "'g \<Rightarrow> string \<Rightarrow> 'g \<times> string"
  gzClose :: "'g \<Rightarrow> string"
  gzInit :: 'g
  putObject :: "string \<Rightarrow> string \<Rightarrow> read_result list \<Rightarrow> string option"
    \<comment> \<open>the error of \<open>s3Client.PutObject\<close> for a bucket, a key and the body it reads\<close>
  cmdWait :: "string option"
    \<comment> \<open>the error of \<open>cmdArchive.Wait()\<close>\<close>
  cmdStderr :: string

definition RunBackup ::
  "'g world \<Rightarrow> string \<Rightarrow> string \<Rightarrow> BackupConfig \<Rightarrow> event list \<times> string option" where
  \<comment> \<open>Lines 61-190, with the calls to the object store it made and the error it
      returned. The log lines of the backup package are left out.\<close>
  "RunBackup w repoPath commitHash cfg =
     (if Bucket cfg = [] then ([], Some ''backup config error: S3 bucket name is required'')
      else
        (case loadDefaultConfig w cfg of
           Some err \<Rightarrow> ([], Some (''failed to load AWS SDK config: '' @ err))
         | None \<Rightarrow>
             (let key = s3Key (Prefix cfg) commitHash;
                  s3Path = ''s3://'' @ Bucket cfg @ ''/'' @ key
              in case stdoutPipe w of
                   Some err \<Rightarrow> ([], Some (''failed to get stdout pipe for git archive: '' @ err))
                 | None \<Rightarrow>
                     (case cmdStart w of
                        Some err \<Rightarrow> ([], Some (''failed to start git archive: '' @ err))
                      | None \<Rightarrow>
                          (let gzipReader = GzipPipe (gzWrite w) (gzClose w) (gzInit w)
                                              (archiveStream w repoPath commitHash);
                               uploadErr = putObject w (Bucket cfg) key (body_reads gzipReader);
                               archiveErr = cmdWait w
                           in ([EvPutObject (Bucket cfg) key],
                               (case uploadErr of
                                  Some err \<Rightarrow>
                                    Some (''failed to upload to S3 ('' @ s3Path @ ''): '' @ err)
                                | None \<Rightarrow>
                                    (case archiveErr of
                                       Some err \<Rightarrow>
                                         Some (''git archive command failed after upload (stderr: '' @
                                               cmdStderr w @ ''): '' @ err)
                                     | None \<Rightarrow> None))))))))"

section \<open>monitor: the check cycle \<open>handleCommitCheck\<close>\<close>

text \<open>
  The package is the first part of \<open>src/monitor/monitor.go\<close>. The debounce timer and
  the event loop that start a cycle are outside the model: a cycle is one call of
  \<open>handleCommitCheck\<close>.
  The package variables the cycle uses are the fields of \<open>monitor\<close>; \<open>processingMu\<close>
  is true while the mutex is held. The field \<open>trace\<close> records, in order, every
  assignment to \<open>lastKnownHash\<close> and every call to a collaborator, and \<open>logged\<close> the
  lines written to the log.
\<close>

record monitor =
  lastKnownHash :: string
  repoPath :: string
  processingMu :: bool
  appBackup :: BackupConfig
  trace :: "event list"
  logged :: "string list"

definition emit :: "event \<Rightarrow> monitor \<Rightarrow> monitor" where
  "emit e st = st\<lparr>trace := trace st @ [e]\<rparr>"

definition logf :: "string \<Rightarrow> monitor \<Rightarrow> monitor" where
  "logf msg st = st\<lparr>logged := logged st @ [msg]\<rparr>"

definition setLastKnownHash :: "string \<Rightarrow> monitor \<Rightarrow> monitor" where
  "setLastKnownHash h st = emit (EvAssign h) (st\<lparr>lastKnownHash := h\<rparr>)"

definition processCommit :: "'g world \<Rightarrow> string \<Rightarrow> string list \<Rightarrow> monitor \<Rightarrow> monitor" where
  \<comment> \<open>Lines 193-216: validation and backup of the commit whose changed files were listed.\<close>
  "processCommit w commitHashToProcess changedFiles st =
     (let st1 = logf (''Monitor: Starting validation for commit '' @ commitHashToProcess @ ''...'')
                  st;
          st2 = emit (EvValidate changedFiles) st1
      in case Validate (CheckFileExists w) (repoPath st) changedFiles of
           (valid, validationErrors) \<Rightarrow>
             if valid then
               (let st3 = logf (''Monitor: Commit '' @ commitHashToProcess @ '' PASSED validation.'')
                            st2;
                    st4 = logf (''Monitor: Starting backup for commit '' @ commitHashToProcess @
                                ''...'') st3;
                    st5 = emit (EvRunBackup commitHashToProcess) st4
                in case RunBackup w (repoPath st) commitHashToProcess (appBackup st) of
                     (calls, err) \<Rightarrow>
                       (let st6 = st5\<lparr>trace := trace st5 @ calls\<rparr>
                        in case err of
                             Some e \<Rightarrow>
                               logf (''Monitor Error: Backup FAILED for commit '' @
                                     commitHashToProcess @ '': '' @ e) st6
                           | None \<Rightarrow>
                               logf (''Monitor: Backup SUCCEEDED for commit '' @
                                     commitHashToProcess @ ''.'') st6))
             else
               (let st3 = logf (''Monitor: Commit '' @ commitHashToProcess @
                                '' FAILED validation:'') st2;
                    st4 = foldl (\<lambda>s verr. logf (''  - '' @ verr) s) st3 validationErrors
                in logf (''Monitor: Backup SKIPPED for invalid commit '' @ commitHashToProcess @
                         ''.'') st4))"

definition checkBody :: "'g world \<Rightarrow> monitor \<Rightarrow> monitor" where
  \<comment> \<open>Lines 170-221: the cycle between taking and releasing the mutex.\<close>
  "checkBody w st =
     (let st1 = logf ''Monitor: Debounce triggered, checking for new commit...'' st;
          st2 = emit EvQueryHead st1
      in case headCommit w (repoPath st) of
           Inl err \<Rightarrow>
             logf (''Monitor Error: Could not get current commit hash during check: '' @ err) st2
         | Inr currentHash \<Rightarrow>
             if currentHash \<noteq> [] \<and> currentHash \<noteq> lastKnownHash st then
               (let st3 = logf (''Monitor: New commit detected! Previous: '' @ lastKnownHash st @
                                '', Current: '' @ currentHash) st2;
                    commitHashToProcess = currentHash;
                    originalLastHash = lastKnownHash st;
                    st4 = setLastKnownHash currentHash st3;
                    st5 = emit (EvChangedFiles commitHashToProcess) st4
                in case GetChangedFilesInCommit (gitShow w) (repoPath st) commitHashToProcess of
                     Inl err \<Rightarrow>
                       setLastKnownHash originalLastHash
                         (logf (''Monitor Error: Failed getting changed files for commit '' @
                                commitHashToProcess @ '': '' @ err @ ''. Skipping processing.'') st5)
                   | Inr changedFiles \<Rightarrow> processCommit w commitHashToProcess changedFiles st5)
             else if currentHash = lastKnownHash st then
               logf ''Monitor: No new commit detected since last check.'' st2
             else
               logf ''Monitor: Current commit hash is empty, skipping check (perhaps repo initializing?).''
                 st2)"

definition handleCommitCheck :: "'g world \<Rightarrow> monitor \<Rightarrow> monitor" where
  \<comment> \<open>Lines 162-168: \<open>TryLock\<close> fails when the mutex is held; otherwise the mutex is
      taken, and the deferred \<open>Unlock\<close> runs when the body returns.\<close>
  "handleCommitCheck w st =
     (if processingMu st then logf ''Monitor: Commit check already in progress, skipping.'' st
      else
        (let locked = emit EvLock (st\<lparr>processingMu := True\<rparr>);
             done = checkBody w locked
         in emit EvUnlock (done\<lparr>processingMu := False\<rparr>)))"

definition cycleEvents :: "'g world \<Rightarrow> monitor \<Rightarrow> event list" where
  \<comment> \<open>The events one cycle adds to the trace.\<close>
  "cycleEvents w st = drop (length (trace st)) (trace (handleCommitCheck w st))"

section \<open>monitor: startup (\<open>Start\<close> and \<open>addRecursiveWatch\<close>)\<close>

text \<open>
  The directory tree found at a path is a \<open>fsnode\<close>; a directory lists its entries by
  name, or cannot be read. \<open>filepath.WalkDir\<close> is modelled with the callback's three
  possible results: \<open>nil\<close>, \<open>filepath.SkipDir\<close> and another error.
\<close>

datatype fsnode = File | Dir "(string \<times> fsnode) list" | DirUnreadable string

datatype walk_ret = RetNil | RetSkipDir | RetErr string

fun IsDir :: "fsnode \<Rightarrow> bool" where
  "IsDir File = False"
| "IsDir (Dir entries) = True"
| "IsDir (DirUnreadable err) = True"

record watcher =
  watchList :: "string list"
  wlog :: "string list"

datatype stat_result = StatOk | StatNotExist | StatErr string

record start_world =
  stat :: "string \<Rightarrow> stat_result"                \<comment> \<open>\<open>os.Stat(path)\<close>\<close>
  lstatTree :: "string \<Rightarrow> string + fsnode"         \<comment> \<open>the tree \<open>WalkDir\<close> finds at a root, or the error of \<open>os.Lstat\<close>\<close>
  initialCommit :: "string \<Rightarrow> string + string"     \<comment> \<open>\<open>gitutil.GetCurrentCommitHash(repoPath)\<close>\<close>
  newWatcher :: "string option"                     \<comment> \<open>the error of \<open>fsnotify.NewWatcher()\<close>\<close>
  watcherAdd :: "string \<Rightarrow> string option"          \<comment> \<open>the error of \<open>watcher.Add(path)\<close>\<close>

definition watcher_Add :: "(string \<Rightarrow> string option) \<Rightarrow> string \<Rightarrow> watcher \<Rightarrow> watcher \<times> string option" where
  \<comment> \<open>A successful \<open>Add\<close> puts the path on the watch list (once).\<close>
  "watcher_Add add path wt =
     (case add path of
        Some err \<Rightarrow> (wt, Some err)
      | None \<Rightarrow> (if path \<in> set (watchList wt) then wt
                  else wt\<lparr>watchList := watchList wt @ [path]\<rparr>, None))"

definition wlogf :: "string \<Rightarrow> watcher \<Rightarrow> watcher" where
  "wlogf msg wt = wt\<lparr>wlog := wlog wt @ [msg]\<rparr>"

definition watchFn ::
  "(string \<Rightarrow> string option) \<Rightarrow> string \<Rightarrow> fsnode option \<Rightarrow> string option \<Rightarrow> watcher
     \<Rightarrow> watcher \<times> walk_ret" where
  \<comment> \<open>Lines 124-147: the callback given to \<open>WalkDir\<close>. The entry is \<open>None\<close> only when
      it is called with the error of the root's \<open>Lstat\<close>.\<close>
  "watchFn add path d walkErr wt =
     (case walkErr of
        Some err \<Rightarrow>
          (wlogf (''Monitor Warning: Error accessing path '' @ [CHR 0x22] @ path @ [CHR 0x22] @
                  '': '' @ err) wt, RetNil)
      | None \<Rightarrow>
          (case d of
             None \<Rightarrow> (wt, RetNil)
           | Some node \<Rightarrow>
               if IsDir node then
                 (let base = filepath_Base path in
                  if base = ''objects'' \<or> base = ''hooks'' then (wt, RetSkipDir)
                  else
                    (case watcher_Add add path wt of
                       (wt1, Some err) \<Rightarrow>
                         (wlogf (''Monitor Error: Failed to add watch on directory '' @ path @
                                 '': '' @ err) wt1, RetNil)
                     | (wt1, None) \<Rightarrow> (wt1, RetNil)))
               else (wt, RetNil)))"

fun walkDir ::
  "(string \<Rightarrow> fsnode option \<Rightarrow> string option \<Rightarrow> watcher \<Rightarrow> watcher \<times> walk_ret)
     \<Rightarrow> string \<Rightarrow> fsnode \<Rightarrow> watcher \<Rightarrow> watcher \<times> walk_ret"
and walkEntries ::
  "(string \<Rightarrow> fsnode option \<Rightarrow> string option \<Rightarrow> watcher \<Rightarrow> watcher \<times> walk_ret)
     \<Rightarrow> string \<Rightarrow> (string \<times> fsnode) list \<Rightarrow> watcher \<Rightarrow> watcher \<times> walk_ret" where
  \<comment> \<open>\<open>walkDir\<close> of \<open>path/filepath\<close>: the callback first; a directory that is not
      skipped is read (a failed read is reported to the callback) and its entries are
      walked in order; \<open>SkipDir\<close> from a directory is absorbed, \<open>SkipDir\<close> from a file
      ends the walk of the directory that holds it.\<close>
  "walkDir fn path File wt = fn path (Some File) None wt"
| "walkDir fn path (DirUnreadable err) wt =
     (case fn path (Some (DirUnreadable err)) None wt of
        (wt1, RetNil) \<Rightarrow>
          (case fn path (Some (DirUnreadable err)) (Some err) wt1 of
             (wt2, RetSkipDir) \<Rightarrow> (wt2, RetNil)
           | (wt2, r) \<Rightarrow> (wt2, r))
      | (wt1, RetSkipDir) \<Rightarrow> (wt1, RetNil)
      | (wt1, RetErr e) \<Rightarrow> (wt1, RetErr e))"
| "walkDir fn path (Dir entries) wt =
     (case fn path (Some (Dir entries)) None wt of
        (wt1, RetNil) \<Rightarrow> walkEntries fn path entries wt1
      | (wt1, RetSkipDir) \<Rightarrow> (wt1, RetNil)
      | (wt1, RetErr e) \<Rightarrow> (wt1, RetErr e))"
| "walkEntries fn path [] wt = (wt, RetNil)"
| "walkEntries fn path ((name, d1) # rest) wt =
     (case walkDir fn (filepath_Join [path, name]) d1 wt of
        (wt1, RetNil) \<Rightarrow> walkEntries fn path rest wt1
      | (wt1, RetSkipDir) \<Rightarrow> (wt1, RetNil)
      | (wt1, RetErr e) \<Rightarrow> (wt1, RetErr e))"

definition filepath_WalkDir ::
  "(string \<Rightarrow> string + fsnode)
     \<Rightarrow> (string \<Rightarrow> fsnode option \<Rightarrow> string option \<Rightarrow> watcher \<Rightarrow> watcher \<times> walk_ret)
     \<Rightarrow> string \<Rightarrow> watcher \<Rightarrow> watcher \<times> string option" where
  "filepath_WalkDir lstat fn root wt =
     (case (case lstat root of
              Inl err \<Rightarrow> fn root None (Some err) wt
            | Inr node \<Rightarrow> walkDir fn root node wt) of
        (wt1, RetErr e) \<Rightarrow> (wt1, Some e)
      | (wt1, r) \<Rightarrow> (wt1, None))"

definition addRecursiveWatch :: "start_world \<Rightarrow> string \<Rightarrow> watcher \<Rightarrow> watcher \<times> string option" where
  \<comment> \<open>Lines 123-158.\<close>
  "addRecursiveWatch w rootPath wt =
     (case filepath_WalkDir (lstatTree w) (watchFn (watcherAdd w)) rootPath wt of
        (wt1, Some err) \<Rightarrow>
          (wt1, Some (''error during recursive watch setup for '' @ rootPath @ '': '' @ err))
      | (wt1, None) \<Rightarrow>
          (case watcher_Add (watcherAdd w) rootPath wt1 of
             (wt2, Some err) \<Rightarrow>
               (wlogf (''Monitor Error: Failed to add watch on root path '' @ rootPath @ '': '' @
                       err) wt2, Some err)
           | (wt2, None) \<Rightarrow> (wt2, None)))"

definition watchPath :: "start_world \<Rightarrow> watcher \<times> nat \<Rightarrow> string \<Rightarrow> watcher \<times> nat" where
  \<comment> \<open>Lines 66-78: the body of the loop over \<open>pathsToWatch\<close>, on the watcher and the
      counter \<open>watchErrors\<close>.\<close>
  "watchPath w acc p =
     (case acc of
        (wt, watchErrors) \<Rightarrow>
          if stat w p = StatOk then
            (case addRecursiveWatch w p (wlogf (''Monitor: Adding watch on: '' @ p) wt) of
               (wt1, Some err) \<Rightarrow>
                 (wlogf (''Monitor Error: Failed to add watch on '' @ p @ '': '' @ err) wt1,
                  watchErrors + 1)
             | (wt1, None) \<Rightarrow> (wt1, watchErrors))
          else
            (wlogf (''Monitor Warning: Path '' @ p @ '' does not exist, skipping watch.'') wt,
             watchErrors))"

fun show_nat :: "nat \<Rightarrow> string" where
  \<comment> \<open>\<open>%d\<close> in a format string\<close>
  "show_nat n =
     (if n < 10 then [ascii_digit ! n] else show_nat (n div 10) @ [ascii_digit ! (n mod 10)])"

declare show_nat.simps [simp del]

definition watchErrorsWarning :: "nat \<Rightarrow> string" where
  "watchErrorsWarning n =
     ''Monitor Warning: '' @ show_nat n @
     '' errors occurred adding watches. Monitoring might be incomplete.''"

datatype start_outcome =
    Fatal string                          \<comment> \<open>\<open>log.Fatal\<close>: the process exits\<close>
  | EventLoop string nat watcher
      \<comment> \<open>the event loop is entered, with this \<open>lastKnownHash\<close>, this value of
          \<open>watchErrors\<close> and this watcher\<close>

definition initialHash :: "start_world \<Rightarrow> string \<Rightarrow> string \<times> watcher" where
  \<comment> \<open>Lines 38-47: the initial \<open>lastKnownHash\<close> (empty when the head cannot be read)
      and the log lines written while it is determined.\<close>
  "initialHash w cfgRepoPath =
     (let wt0 = \<lparr>watchList = [], wlog = []\<rparr>;
          hash = (case initialCommit w cfgRepoPath of Inl err \<Rightarrow> [] | Inr h \<Rightarrow> h);
          wt1 = (case initialCommit w cfgRepoPath of
                   Inl err \<Rightarrow>
                     wlogf (''Monitor Warning: Could not get initial commit hash for '' @
                            cfgRepoPath @ '': '' @ err @
                            ''. Will process the first detected commit.'') wt0
                 | Inr h \<Rightarrow> wt0);
          wt2 = wlogf (''Monitor: Starting monitoring for repo: '' @ cfgRepoPath) wt1
      in (hash, if hash \<noteq> [] then wlogf (''Monitor: Initial commit hash: '' @ hash) wt2
                else wt2))"

definition watchLoop :: "start_world \<Rightarrow> string \<Rightarrow> watcher \<Rightarrow> watcher \<times> nat" where
  \<comment> \<open>Lines 59-78: the loop over \<open>pathsToWatch\<close>, returning the watcher and the
      counter \<open>watchErrors\<close>.\<close>
  "watchLoop w gitDir wt =
     (let pathsToWatch = [gitDir, filepath_Join [gitDir, ''refs'']]
      in foldl (watchPath w) (wt, 0) pathsToWatch)"

definition Start :: "start_world \<Rightarrow> string \<Rightarrow> start_outcome" where
  \<comment> \<open>Lines 29-86, up to the event loop; the argument is \<open>cfg.RepoPath\<close>.\<close>
  "Start w cfgRepoPath =
     (let gitDir = filepath_Join [cfgRepoPath, ''.git''] in
      if stat w gitDir = StatNotExist then
        Fatal (''Monitor Error: '' @ quoted ''.git'' @ '' directory not found in '' @ cfgRepoPath)
      else
        (case initialHash w cfgRepoPath of
           (hash, wt3) \<Rightarrow>
             (case newWatcher w of
                Some err \<Rightarrow> Fatal (''Monitor Error: Failed to create watcher:'' @ err)
              | None \<Rightarrow>
                  (case watchLoop w gitDir wt3 of
                     (wt4, watchErrors) \<Rightarrow>
                       (let wt5 = (if watchErrors > 0
                                   then wlogf (watchErrorsWarning watchErrors) wt4 else wt4)
                        in EventLoop hash watchErrors
                             (wlogf ''Monitor: Watcher started. Waiting for Git activity...''
                                wt5))))))"

section \<open>The events of one cycle, written out\<close>

definition backupEvents :: "'g world \<Rightarrow> monitor \<Rightarrow> string \<Rightarrow> string list \<Rightarrow> event list" where
  "backupEvents w st h files =
     (if fst (Validate (CheckFileExists w) (repoPath st) files)
      then EvRunBackup h # fst (RunBackup w (repoPath st) h (appBackup st)) else [])"

definition bodyEvents :: "'g world \<Rightarrow> monitor \<Rightarrow> event list" where
  "bodyEvents w st =
     EvQueryHead #
     (case headCommit w (repoPath st) of
        Inl err \<Rightarrow> []
      | Inr currentHash \<Rightarrow>
          if currentHash \<noteq> [] \<and> currentHash \<noteq> lastKnownHash st then
            EvAssign currentHash # EvChangedFiles currentHash #
            (case GetChangedFilesInCommit (gitShow w) (repoPath st) currentHash of
               Inl err \<Rightarrow> [EvAssign (lastKnownHash st)]
             | Inr files \<Rightarrow> EvValidate files # backupEvents w st currentHash files)
          else [])"

section \<open>Concrete scenarios\<close>

text \<open>
  A monitor that last saw commit \<open>000aaa\<close>, and a repository whose head is the new
  commit \<open>abc123\<close>, with \<open>README.md\<close> and \<open>.gitignore\<close> in its index and an object
  store that accepts every upload. The compressor of the scenario passes its input on
  unchanged.
\<close>

definition cfg0 :: BackupConfig where
  "cfg0 = \<lparr>Bucket = ''backups'', EndpointURL = [], Region = [], Prefix = [],
            AccessKeyID = [], SecretKey = []\<rparr>"

definition st0 :: monitor where
  "st0 = \<lparr>lastKnownHash = ''000aaa'', repoPath = ''/repo'', processingMu = False,
           appBackup = cfg0, trace = [], logged = []\<rparr>"

definition listing0 :: string where
  "listing0 = ''M'' @ [CHR 0x09] @ ''README.md'' @ [CHR 0x0A] @
              ''A'' @ [CHR 0x09] @ ''docs/notes.txt'' @ [CHR 0x0A]"

definition w0 :: "unit world" where
  "w0 = \<lparr>headCommit = (\<lambda>rp. Inr ''abc123''),
          gitShow = (\<lambda>rp h. Inr listing0),
          CheckFileExists = (\<lambda>rp f. f \<in> set [''README.md'', ''.gitignore'']),
          loadDefaultConfig = (\<lambda>cfg. None),
          stdoutPipe = None,
          cmdStart = None,
          archiveStream = (\<lambda>rp h. ([''tar bytes''], None)),
          gzWrite = (\<lambda>g bytes. (g, bytes)),
          gzClose = (\<lambda>g. []),
          gzInit = (),
          putObject = (\<lambda>bucket key body. None),
          cmdWait = None,
          cmdStderr = []\<rparr>"

definition w_putfail :: "unit world" where
  "w_putfail = w0\<lparr>gitShow := (\<lambda>rp h. Inr (''M'' @ [CHR 0x09] @ ''README.md'' @ [CHR 0x0A])),
                  putObject := (\<lambda>bucket key body. Some ''connection reset'')\<rparr>"

text \<open>
  The commit of the end-to-end example: its project folder, the changed files as the
  specification lists them, the same files with the project file named after its folder,
  and the violation the validator reports for the first list.
\<close>

definition song_folder :: string where
  "song_folder = ''song-artist-feat-x-120bpm-prodby.me''"

definition claimed_files :: "string list" where
  "claimed_files = [''README.md'', ''src/projects/'' @ song_folder @ ''/song.flp'']"

definition named_files :: "string list" where
  "named_files = [''README.md'', ''src/projects/'' @ song_folder @ ''/'' @ song_folder @ ''.flp'']"

definition song_violation :: string where
  "song_violation =
     ''Project filename base must match folder name. Expected '' @
     quoted (song_folder @ ''.*'') @ '', found '' @ quoted ''song.flp'' @ '' in path '' @
     quoted (''src/projects/'' @ song_folder @ ''/song.flp'')"

definition w_song :: "unit world" where
  "w_song = w0\<lparr>gitShow := (\<lambda>rp h. Inr (''M'' @ [CHR 0x09] @ ''README.md'' @ [CHR 0x0A] @
      ''A'' @ [CHR 0x09] @ ''src/projects/'' @ song_folder @ ''/song.flp'' @ [CHR 0x0A]))\<rparr>"

definition w_named :: "unit world" where
  "w_named = w0\<lparr>gitShow := (\<lambda>rp h. Inr (''M'' @ [CHR 0x09] @ ''README.md'' @ [CHR 0x0A] @
      ''A'' @ [CHR 0x09] @ ''src/projects/'' @ song_folder @ ''/'' @ song_folder @ ''.flp'' @
      [CHR 0x0A]))\<rparr>"

text \<open>
  A startup in which the \<open>.git\<close> directory exists and the watcher is constructed, but
  every \<open>watcher.Add\<close> fails.
\<close>

definition w_nowatch :: start_world where
  "w_nowatch = \<lparr>stat = (\<lambda>p. StatOk),
                 lstatTree = (\<lambda>p. if p = ''/repo/.git''
                    then Inr (Dir [(''HEAD'', File), (''objects'', Dir []), (''refs'', Dir [])])
                    else Inr (Dir [])),
                 initialCommit = (\<lambda>rp. Inr ''000aaa''),
                 newWatcher = None,
                 watcherAdd = (\<lambda>p. Some ''denied'')\<rparr>"


text \<open>
  A startup in which \<open>os.Stat\<close> fails on every path with an error other than
  "does not exist" and every \<open>watcher.Add\<close> fails.
\<close>

definition w_staterr :: start_world where
  "w_staterr = w_nowatch\<lparr>stat := (\<lambda>p. StatErr ''permission denied'')\<rparr>"





section \<open>The ChangeSet in the words of the specification\<close>

text \<open>
  A name-status listing is a sequence of lines: a status and a path, or, for a rename or
  a copy, a status, the source path and the destination path. The specification's
  ChangeSet takes the destination of a rename or copy line, nothing from a deletion
  line and the path of any other line, in order. \<open>listing\<close> is the text of such a
  sequence as \<open>git show\<close> prints it, fields separated by tabs and every line ended by
  a newline. \<open>wf_line\<close> says that a line is one the format allows, that its status
  starts and its last path ends with an ASCII character, and that this character is not
  white space. On such a line \<open>strings_TrimSpace\<close>, which removes ASCII white space,
  and Go's \<open>strings.TrimSpace\<close>, which also removes the white space of Unicode
  outside ASCII, agree: both leave the line as it is.
\<close>

datatype status_line =
    Changed string string          \<comment> \<open>status and path\<close>
  | Moved string string string     \<comment> \<open>status, source path and destination path\<close>


fun render :: "status_line \<Rightarrow> string" where
  "render (Changed s p) = s @ CHR 0x09 # p"
| "render (Moved s old new) = s @ CHR 0x09 # old @ CHR 0x09 # new"

definition listing :: "status_line list \<Rightarrow> string" where
  "listing ls = concat (map (\<lambda>l. render l @ [CHR 0x0A]) ls)"

fun spec_contribution :: "status_line \<Rightarrow> string list" where
  "spec_contribution (Changed s p) = (if s = ''D'' then [] else [p])"
| "spec_contribution (Moved s old new) = [new]"

definition spec_ChangeSet :: "status_line list \<Rightarrow> string list" where
  "spec_ChangeSet ls = concat (map spec_contribution ls)"

definition plain :: "string \<Rightarrow> bool" where
  "plain s = (CHR 0x09 \<notin> set s \<and> CHR 0x0A \<notin> set s)"

definition is_ascii :: "char \<Rightarrow> bool" where
  "is_ascii c = (of_char c < (128 :: nat))"

definition wf_status :: "string \<Rightarrow> bool" where
  "wf_status s = (s \<noteq> [] \<and> plain s \<and> is_ascii (hd s) \<and> \<not> is_space (hd s))"

definition wf_last_path :: "string \<Rightarrow> bool" where
  "wf_last_path p = (p \<noteq> [] \<and> plain p \<and> is_ascii (last p) \<and> \<not> is_space (last p))"

fun wf_line :: "status_line \<Rightarrow> bool" where
  "wf_line (Changed s p) =
     (wf_status s \<and> \<not> strings_HasPrefix s ''R'' \<and> \<not> strings_HasPrefix s ''C'' \<and> wf_last_path p)"
| "wf_line (Moved s old new) =
     (wf_status s \<and> (strings_HasPrefix s ''R'' \<or> strings_HasPrefix s ''C'') \<and> plain old
      \<and> wf_last_path new)"

section \<open>Properties of the object key\<close>

lemma dropWhile_keeps:
  "t = [] \<or> \<not> P (hd t) \<Longrightarrow> dropWhile P t = t"
  by (cases t) auto

lemma trim_core:
  assumes xs: "\<forall>x\<in>set xs. P x" and ys: "\<forall>x\<in>set ys. P x"
    and t: "t = [] \<or> (\<not> P (hd t) \<and> \<not> P (last t))"
  shows "rev (dropWhile P (rev (dropWhile P (xs @ t @ ys)))) = t"
proof -
  have 1: "dropWhile P (xs @ t @ ys) = dropWhile P (t @ ys)"
    using xs by (intro dropWhile_append2) blast
  show ?thesis
  proof (cases "t = []")
    case True
    have 0: "dropWhile P ys = []"
      using ys by (simp only: dropWhile_eq_Nil_conv)
    show ?thesis
      unfolding 1 unfolding True by (simp only: 0 append_Nil rev.simps dropWhile.simps)
  next
    case False
    with t have h: "\<not> P (hd t)" and l: "\<not> P (last t)" by blast+
    have 2: "dropWhile P (t @ ys) = t @ ys"
      using False h by (intro dropWhile_keeps) simp
    have 3: "dropWhile P (rev ys @ rev t) = dropWhile P (rev t)"
      using ys by (intro dropWhile_append2) simp
    have 4: "dropWhile P (rev t) = rev t"
      using False l by (intro dropWhile_keeps) (simp add: hd_rev)
    show ?thesis
      by (simp only: 1 2 3 4 rev_append rev_rev_ident)
  qed
qed

lemma strings_Trim_slashes:
  assumes "t = [] \<or> (hd t \<noteq> CHR ''/'' \<and> last t \<noteq> CHR ''/'')"
  shows "strings_Trim (replicate a CHR ''/'' @ t @ replicate b CHR ''/'') ''/'' = t"
  unfolding strings_Trim_def
  by (rule trim_core) (use assms in auto)

text \<open>
  C8. The object key is a function of the configured prefix and the commit hash alone.
  Writing the prefix as some slashes, a core \<open>t\<close> that neither starts nor ends with a
  slash, and some more slashes, the key is \<open>commit-h.tar.gz\<close> when \<open>t\<close> is empty
  (the prefix is empty or only slashes) and \<open>t/commit-h.tar.gz\<close> otherwise.
\<close>

theorem s3Key_deterministic_format:
  assumes "prefix = replicate a CHR ''/'' @ t @ replicate b CHR ''/''"
    and "t = [] \<or> (hd t \<noteq> CHR ''/'' \<and> last t \<noteq> CHR ''/'')"
  shows "s3Key prefix h =
     (if t = [] then ''commit-'' @ h @ ''.tar.gz''
      else t @ ''/'' @ ''commit-'' @ h @ ''.tar.gz'')"
proof -
  have trim: "strings_Trim prefix ''/'' = t"
    unfolding assms(1) by (rule strings_Trim_slashes [OF assms(2)])
  show ?thesis
  proof (cases "prefix = []")
    case True
    with assms(1) have "t = []" by simp
    with True show ?thesis by (simp add: s3Key_def backupFilename_def)
  next
    case False
    then show ?thesis
      by (simp add: s3Key_def backupFilename_def trim Let_def)
  qed
qed

theorem s3Key_deterministic_format_witness:
  "s3Key ''//backups/daily/'' ''abc123'' = ''backups/daily/commit-abc123.tar.gz''
   \<and> s3Key ''///'' ''abc123'' = ''commit-abc123.tar.gz''
   \<and> s3Key '''' ''abc123'' = ''commit-abc123.tar.gz''"
proof -
  have 1: "s3Key ''//backups/daily/'' ''abc123'' = ''backups/daily/commit-abc123.tar.gz''"
    using s3Key_deterministic_format [of "''//backups/daily/''" 2 "''backups/daily''" 1 "''abc123''"]
    by (simp add: numeral_2_eq_2)
  have 2: "s3Key ''///'' ''abc123'' = ''commit-abc123.tar.gz''"
    using s3Key_deterministic_format [of "''///''" 3 "''''" 0 "''abc123''"]
    by (simp add: numeral_3_eq_3)
  have 3: "s3Key '''' ''abc123'' = ''commit-abc123.tar.gz''"
    using s3Key_deterministic_format [of "''''" 0 "''''" 0 "''abc123''"]
    by simp
  from 1 2 3 show ?thesis by simp
qed

section \<open>Properties of the validator\<close>

lemma exportNameSubmatch_examples:
  "exportNameSubmatch ''my-song-mixed'' = [''my-song-mixed'', ''my-song'', ''mixed'']"
  "exportNameSubmatch ''mixed'' = []"
  "exportNameSubmatch ''my-song-'' = []"
  by code_simp+

lemma addError_consistent: "consistent (addError msg st)"
  by (simp add: consistent_def addError_def)

lemma addErrorIf_consistent: "consistent st \<Longrightarrow> consistent (addErrorIf c msg st)"
  by (simp add: addErrorIf_def addError_consistent)

lemma checkProjectFile_consistent:
  "consistent st \<Longrightarrow> consistent (checkProjectFile pf parts file st)"
  unfolding checkProjectFile_def Let_def
  by (intro addErrorIf_consistent)

lemma checkExportFile_consistent:
  "consistent st \<Longrightarrow> consistent (checkExportFile pf parts file st)"
  unfolding checkExportFile_def Let_def
  by (simp add: addErrorIf_consistent addError_consistent)

lemma checkProjectsPath_consistent:
  "consistent st \<Longrightarrow> consistent (checkProjectsPath parts file st)"
  unfolding checkProjectsPath_def Let_def
  by (simp add: addError_consistent checkProjectFile_consistent checkExportFile_consistent)

lemma checkSrcPath_consistent:
  "consistent st \<Longrightarrow> consistent (checkSrcPath filePath file st)"
  unfolding checkSrcPath_def Let_def
  by (simp add: addErrorIf_consistent checkProjectsPath_consistent)

lemma checkFile_consistent:
  "consistent st \<Longrightarrow> consistent (checkFile file st)"
  unfolding checkFile_def Let_def
  by (simp add: addErrorIf_consistent addError_consistent checkSrcPath_consistent)

lemma checkRequired_consistent:
  "consistent st \<Longrightarrow> consistent (checkRequired C rp r st)"
  unfolding checkRequired_def by (rule addErrorIf_consistent)

lemma foldl_checkFile_consistent:
  "consistent st \<Longrightarrow> consistent (foldl (\<lambda>st file. checkFile file st) st files)"
  by (induction files arbitrary: st) (simp_all add: checkFile_consistent)

lemma foldl_checkRequired_consistent:
  "consistent st \<Longrightarrow> consistent (foldl (\<lambda>st r. checkRequired C rp r st) st rs)"
  by (induction rs arbitrary: st) (simp_all add: checkRequired_consistent)

text \<open>
  C9. For every index, repository path and list of changed files, the flag returned by
  \<open>Validate\<close> is true exactly when the returned list of violations is empty: neither
  (true, non-empty list) nor (false, empty list) is ever returned.
\<close>

theorem Validate_flag_iff_no_violations:
  "fst (Validate C rp files) = (snd (Validate C rp files) = [])"
proof -
  have 0: "consistent \<lparr>errors = [], isValid = True\<rparr>"
    by (simp add: consistent_def)
  have "consistent (foldl (\<lambda>st r. checkRequired C rp r st)
          (if files = [] then \<lparr>errors = [], isValid = True\<rparr>
           else foldl (\<lambda>st file. checkFile file st) \<lparr>errors = [], isValid = True\<rparr> files)
          requiredRootFiles)"
    by (intro foldl_checkRequired_consistent) (simp add: 0 foldl_checkFile_consistent)
  then show ?thesis
    by (simp add: Validate_def Let_def consistent_def)
qed

lemma required_loop:
  "foldl (\<lambda>st r. checkRequired C rp r st) st requiredRootFiles =
     addErrorIf (\<not> C rp ''.gitignore'') (requiredMissing ''.gitignore'')
       (addErrorIf (\<not> C rp ''README.md'') (requiredMissing ''README.md'') st)"
  by (simp add: requiredRootFiles_def checkRequired_def)

lemma Validate_eq:
  "Validate C rp files =
     (let st1 = (if files = [] then \<lparr>errors = [], isValid = True\<rparr>
                 else foldl (\<lambda>st file. checkFile file st) \<lparr>errors = [], isValid = True\<rparr> files);
          st2 = addErrorIf (\<not> C rp ''.gitignore'') (requiredMissing ''.gitignore'')
                  (addErrorIf (\<not> C rp ''README.md'') (requiredMissing ''README.md'') st1)
      in (isValid st2, errors st2))"
  by (simp add: Validate_def Let_def required_loop)

text \<open>
  C10. The loop over the required root files runs on every call of \<open>Validate\<close>,
  whatever the changed files are: a valid result needs \<open>README.md\<close> and
  \<open>.gitignore\<close> in the index, every required file missing from the index is reported,
  and on the empty list of changed files the result is decided by the index alone (valid
  exactly when both files are in the index).
\<close>

theorem Validate_checks_required_files_always:
  "(fst (Validate C rp files) \<longrightarrow> C rp ''README.md'' \<and> C rp ''.gitignore'')
   \<and> (\<forall>r \<in> set requiredRootFiles.
         \<not> C rp r \<longrightarrow> requiredMissing r \<in> set (snd (Validate C rp files)))
   \<and> Validate C rp [] =
        (C rp ''README.md'' \<and> C rp ''.gitignore'',
         (if C rp ''README.md'' then [] else [requiredMissing ''README.md'']) @
         (if C rp ''.gitignore'' then [] else [requiredMissing ''.gitignore'']))"
proof (intro conjI)
  show "fst (Validate C rp files) \<longrightarrow> C rp ''README.md'' \<and> C rp ''.gitignore''"
    by (simp add: Validate_eq Let_def addErrorIf_def addError_def)
  show "\<forall>r \<in> set requiredRootFiles.
          \<not> C rp r \<longrightarrow> requiredMissing r \<in> set (snd (Validate C rp files))"
    by (simp add: Validate_eq Let_def addErrorIf_def addError_def requiredRootFiles_def)
  show "Validate C rp [] =
        (C rp ''README.md'' \<and> C rp ''.gitignore'',
         (if C rp ''README.md'' then [] else [requiredMissing ''README.md'']) @
         (if C rp ''.gitignore'' then [] else [requiredMissing ''.gitignore'']))"
    by (simp add: Validate_eq Let_def addErrorIf_def addError_def)
qed

theorem Validate_checks_required_files_always_witness:
  "\<not> fst (Validate (\<lambda>r f. f = ''README.md'') ''/repo'' [''README.md''])
   \<and> requiredMissing ''.gitignore''
        \<in> set (snd (Validate (\<lambda>r f. f = ''README.md'') ''/repo'' [''README.md'']))
   \<and> Validate (\<lambda>r f. f = ''README.md'') ''/repo'' [] = (False, [requiredMissing ''.gitignore''])
   \<and> Validate (\<lambda>r f. True) ''/repo'' [] = (True, [])"
  using Validate_checks_required_files_always
          [of "\<lambda>r f. f = ''README.md''" "''/repo''" "[''README.md'']"]
        Validate_checks_required_files_always [of "\<lambda>r f. True" "''/repo''" "[]"]
  by (simp add: requiredRootFiles_def)

section \<open>Properties of the check cycle\<close>

lemma logf_fields:
  "lastKnownHash (logf m st) = lastKnownHash st"
  "trace (logf m st) = trace st"
  "processingMu (logf m st) = processingMu st"
  "repoPath (logf m st) = repoPath st"
  "appBackup (logf m st) = appBackup st"
  by (simp_all add: logf_def)

lemma emit_fields:
  "lastKnownHash (emit e st) = lastKnownHash st"
  "trace (emit e st) = trace st @ [e]"
  "processingMu (emit e st) = processingMu st"
  "repoPath (emit e st) = repoPath st"
  "appBackup (emit e st) = appBackup st"
  by (simp_all add: emit_def)

lemma setLastKnownHash_fields:
  "lastKnownHash (setLastKnownHash h st) = h"
  "trace (setLastKnownHash h st) = trace st @ [EvAssign h]"
  "processingMu (setLastKnownHash h st) = processingMu st"
  "repoPath (setLastKnownHash h st) = repoPath st"
  "appBackup (setLastKnownHash h st) = appBackup st"
  by (simp_all add: setLastKnownHash_def emit_def)

lemma foldl_logf_fields:
  "lastKnownHash (foldl (\<lambda>s v. logf (f v) s) st vs) = lastKnownHash st"
  "trace (foldl (\<lambda>s v. logf (f v) s) st vs) = trace st"
  "repoPath (foldl (\<lambda>s v. logf (f v) s) st vs) = repoPath st"
  "appBackup (foldl (\<lambda>s v. logf (f v) s) st vs) = appBackup st"
  by (induction vs arbitrary: st) (simp_all add: logf_fields)

lemma processCommit_hash:
  "lastKnownHash (processCommit w h files st) = lastKnownHash st"
  by (simp add: processCommit_def Let_def logf_fields emit_fields foldl_logf_fields
      split: prod.splits option.splits)

lemma processCommit_trace:
  "trace (processCommit w h files st) = trace st @ EvValidate files # backupEvents w st h files"
  by (simp add: processCommit_def backupEvents_def Let_def logf_fields emit_fields foldl_logf_fields
      split: prod.splits option.splits)

lemma RunBackup_events:
  "fst (RunBackup w rp h cfg) = [] \<or>
   fst (RunBackup w rp h cfg) = [EvPutObject (Bucket cfg) (s3Key (Prefix cfg) h)]"
  by (simp add: RunBackup_def Let_def split: option.splits)

lemma checkBody_trace: "trace (checkBody w st) = trace st @ bodyEvents w st"
  by (simp add: checkBody_def bodyEvents_def backupEvents_def Let_def logf_fields emit_fields
      setLastKnownHash_fields processCommit_trace split: sum.splits)

lemma checkBody_hash:
  "lastKnownHash (checkBody w st) =
     (case headCommit w (repoPath st) of
        Inl err \<Rightarrow> lastKnownHash st
      | Inr currentHash \<Rightarrow>
          if currentHash \<noteq> [] \<and> currentHash \<noteq> lastKnownHash st then
            (case GetChangedFilesInCommit (gitShow w) (repoPath st) currentHash of
               Inl err \<Rightarrow> lastKnownHash st
             | Inr files \<Rightarrow> currentHash)
          else lastKnownHash st)"
  by (simp add: checkBody_def Let_def logf_fields emit_fields
      setLastKnownHash_fields processCommit_hash split: sum.splits)

lemma bodyEvents_locked:
  "bodyEvents w (emit EvLock (st\<lparr>processingMu := True\<rparr>)) = bodyEvents w st"
  by (simp add: bodyEvents_def backupEvents_def emit_def split: sum.split)

lemma handle_free_trace:
  "\<not> processingMu st \<Longrightarrow>
     trace (handleCommitCheck w st) = trace st @ EvLock # bodyEvents w st @ [EvUnlock]"
  by (simp add: handleCommitCheck_def Let_def emit_fields checkBody_trace bodyEvents_locked)

lemma handle_free_hash:
  "\<not> processingMu st \<Longrightarrow>
     lastKnownHash (handleCommitCheck w st) =
       (case headCommit w (repoPath st) of
          Inl err \<Rightarrow> lastKnownHash st
        | Inr currentHash \<Rightarrow>
            if currentHash \<noteq> [] \<and> currentHash \<noteq> lastKnownHash st then
              (case GetChangedFilesInCommit (gitShow w) (repoPath st) currentHash of
                 Inl err \<Rightarrow> lastKnownHash st
               | Inr files \<Rightarrow> currentHash)
            else lastKnownHash st)"
  by (simp add: handleCommitCheck_def Let_def emit_fields checkBody_hash split: sum.split)

lemma processCommit_repoPath:
  "repoPath (processCommit w h files st) = repoPath st"
  "appBackup (processCommit w h files st) = appBackup st"
  by (simp_all add: processCommit_def Let_def logf_fields emit_fields foldl_logf_fields
      split: prod.splits option.splits)

lemma checkBody_repoPath:
  "repoPath (checkBody w st) = repoPath st"
  "appBackup (checkBody w st) = appBackup st"
  by (simp_all add: checkBody_def Let_def logf_fields emit_fields
      setLastKnownHash_fields processCommit_repoPath split: sum.splits)

lemma handle_free_fields:
  "\<not> processingMu st \<Longrightarrow> \<not> processingMu (handleCommitCheck w st)"
  "repoPath (handleCommitCheck w st) = repoPath st"
  "appBackup (handleCommitCheck w st) = appBackup st"
  by (simp_all add: handleCommitCheck_def Let_def emit_fields logf_fields checkBody_repoPath)

lemma cycleEvents_free:
  "\<not> processingMu st \<Longrightarrow> cycleEvents w st = EvLock # bodyEvents w st @ [EvUnlock]"
  by (simp add: cycleEvents_def handle_free_trace)


lemma RunBackup_event_is_put:
  "e \<in> set (fst (RunBackup w rp h cfg)) \<Longrightarrow> e = EvPutObject (Bucket cfg) (s3Key (Prefix cfg) h)"
  using RunBackup_events [of w rp h cfg] by auto

lemma bodyEvents_no_lock:
  "EvLock \<notin> set (bodyEvents w st) \<and> EvUnlock \<notin> set (bodyEvents w st)"
  by (auto simp: bodyEvents_def backupEvents_def split: sum.splits dest: RunBackup_event_is_put)

lemma split_char_nonempty: "split_char c s \<noteq> []"
  by (induction s) (auto split: list.splits)

lemma split_char_length: "seg \<in> set (split_char c s) \<Longrightarrow> length seg \<le> length s"
proof (induction s arbitrary: seg)
  case Nil
  then show ?case by simp
next
  case (Cons x xs)
  then show ?case
    by (cases "split_char c xs") (auto split: if_splits simp: split_char_nonempty le_SucI)
qed

lemma scanTooLong_short: "length out < MaxScanTokenSize \<Longrightarrow> \<not> scanTooLong out"
  using split_char_length [of _ "CHR 0x0A" out]
  by (fastforce simp: scanTooLong_def list_ex_iff)

text \<open>
  C1. When the cycle finds a new commit \<open>H\<close> (non-empty and different from the tracked
  hash \<open>P\<close>), its first four events are taking the mutex, the head query, the assignment
  of \<open>H\<close> to the tracked hash and only then the listing of the changed files of \<open>H\<close>.
  The tracked hash after the cycle is \<open>P\<close> exactly when the listing fails (and \<open>H\<close>
  when it succeeds); when it fails the cycle ends with the assignment of \<open>P\<close> and the
  release of the mutex.
\<close>

theorem rollback_on_enumeration_failure:
  assumes "\<not> processingMu st"
    and "headCommit w (repoPath st) = Inr H"
    and "H \<noteq> []" and "H \<noteq> lastKnownHash st"
  shows "take 4 (cycleEvents w st) = [EvLock, EvQueryHead, EvAssign H, EvChangedFiles H]
    \<and> lastKnownHash (handleCommitCheck w st) =
        (case GetChangedFilesInCommit (gitShow w) (repoPath st) H of
           Inl err \<Rightarrow> lastKnownHash st
         | Inr files \<Rightarrow> H)
    \<and> (\<forall>err. GetChangedFilesInCommit (gitShow w) (repoPath st) H = Inl err \<longrightarrow>
          cycleEvents w st =
            [EvLock, EvQueryHead, EvAssign H, EvChangedFiles H, EvAssign (lastKnownHash st),
             EvUnlock])"
  using assms
  by (simp add: cycleEvents_free handle_free_hash bodyEvents_def)

theorem rollback_on_enumeration_failure_witness:
  "lastKnownHash (handleCommitCheck (w0\<lparr>gitShow := \<lambda>rp h. Inl ''exit status 128''\<rparr>) st0) = ''000aaa''
   \<and> cycleEvents (w0\<lparr>gitShow := \<lambda>rp h. Inl ''exit status 128''\<rparr>) st0 =
       [EvLock, EvQueryHead, EvAssign ''abc123'', EvChangedFiles ''abc123'',
        EvAssign ''000aaa'', EvUnlock]"
  using rollback_on_enumeration_failure
    [of st0 "w0\<lparr>gitShow := \<lambda>rp h. Inl ''exit status 128''\<rparr>" "''abc123''"]
  by (simp add: st0_def w0_def GetChangedFilesInCommit_def)

text \<open>
  C2. When the changed files of a new commit \<open>H\<close> were listed, the tracked hash after
  the cycle is \<open>H\<close> whatever happens next. If the validator rejects the files, the
  cycle's events end after the validation: \<open>RunBackup\<close> is not called and nothing is
  put. If it accepts them, \<open>RunBackup\<close> is called once, and whatever it returns (an
  error or none) the only assignment of the cycle stays the one of \<open>H\<close>. A later cycle
  that finds the head still at \<open>H\<close> only queries the head: nothing is retried.
\<close>

theorem advance_kept_after_enumeration:
  assumes "\<not> processingMu st"
    and "headCommit w (repoPath st) = Inr H"
    and "H \<noteq> []" and "H \<noteq> lastKnownHash st"
    and "GetChangedFilesInCommit (gitShow w) (repoPath st) H = Inr files"
  shows "lastKnownHash (handleCommitCheck (w :: 'g world) st) = H
    \<and> (\<not> fst (Validate (CheckFileExists w) (repoPath st) files) \<longrightarrow>
          cycleEvents w st =
            [EvLock, EvQueryHead, EvAssign H, EvChangedFiles H, EvValidate files, EvUnlock])
    \<and> (fst (Validate (CheckFileExists w) (repoPath st) files) \<longrightarrow>
          cycleEvents w st =
            [EvLock, EvQueryHead, EvAssign H, EvChangedFiles H, EvValidate files, EvRunBackup H]
            @ fst (RunBackup w (repoPath st) H (appBackup st)) @ [EvUnlock])
    \<and> (\<forall>w' :: 'g world. headCommit w' (repoPath st) = Inr H \<longrightarrow>
          cycleEvents w' (handleCommitCheck w st) = [EvLock, EvQueryHead, EvUnlock]
          \<and> lastKnownHash (handleCommitCheck w' (handleCommitCheck w st)) = H)"
proof -
  let ?st' = "handleCommitCheck w st"
  have hash: "lastKnownHash ?st' = H"
    using assms by (simp add: handle_free_hash)
  have free': "\<not> processingMu ?st'" and rp: "repoPath ?st' = repoPath st"
    using assms(1) by (simp_all add: handle_free_fields)
  have ev: "cycleEvents w st =
      EvLock # EvQueryHead # EvAssign H # EvChangedFiles H # EvValidate files #
      backupEvents w st H files @ [EvUnlock]"
    using assms by (simp add: cycleEvents_free bodyEvents_def)
  have again: "cycleEvents w' ?st' = [EvLock, EvQueryHead, EvUnlock]
      \<and> lastKnownHash (handleCommitCheck w' ?st') = H"
    if "headCommit w' (repoPath st) = Inr H" for w' :: "'g world"
    using that free' rp hash by (simp add: cycleEvents_free handle_free_hash bodyEvents_def)
  show ?thesis
    using hash ev again by (simp add: backupEvents_def)
qed

lemma w0_listing:
  "GetChangedFilesInCommit (gitShow w0) ''/repo'' ''abc123'' = Inr [''README.md'', ''docs/notes.txt'']"
proof -
  have "\<not> scanTooLong listing0"
    by (rule scanTooLong_short) (simp add: listing0_def MaxScanTokenSize_def)
  moreover have "foldl parseLine [] (ScanLines listing0) = [''README.md'', ''docs/notes.txt'']"
    by code_simp
  ultimately show ?thesis
    by (simp add: GetChangedFilesInCommit_def w0_def)
qed

lemma w0_invalid:
  "\<not> fst (Validate (CheckFileExists w0) ''/repo'' [''README.md'', ''docs/notes.txt''])"
  by code_simp

lemma w_putfail_listing:
  "GetChangedFilesInCommit (gitShow w_putfail) ''/repo'' ''abc123'' = Inr [''README.md'']"
proof -
  let ?out = "''M'' @ [CHR 0x09] @ ''README.md'' @ [CHR 0x0A]"
  have "\<not> scanTooLong ?out"
    by (rule scanTooLong_short) (simp add: MaxScanTokenSize_def)
  moreover have "foldl parseLine [] (ScanLines ?out) = [''README.md'']"
    by code_simp
  ultimately show ?thesis
    by (simp add: GetChangedFilesInCommit_def w_putfail_def)
qed

lemma w_putfail_valid:
  "fst (Validate (CheckFileExists w_putfail) ''/repo'' [''README.md''])"
  by code_simp

lemma w_putfail_backup:
  "RunBackup w_putfail ''/repo'' ''abc123'' cfg0 =
     ([EvPutObject ''backups'' ''commit-abc123.tar.gz''],
      Some ''failed to upload to S3 (s3://backups/commit-abc123.tar.gz): connection reset'')"
  by code_simp

theorem advance_kept_after_enumeration_witness:
  "lastKnownHash (handleCommitCheck w0 st0) = ''abc123''
   \<and> cycleEvents w0 st0 =
       [EvLock, EvQueryHead, EvAssign ''abc123'', EvChangedFiles ''abc123'',
        EvValidate [''README.md'', ''docs/notes.txt''], EvUnlock]
   \<and> lastKnownHash (handleCommitCheck w_putfail st0) = ''abc123''
   \<and> cycleEvents w_putfail st0 =
       [EvLock, EvQueryHead, EvAssign ''abc123'', EvChangedFiles ''abc123'',
        EvValidate [''README.md''], EvRunBackup ''abc123'',
        EvPutObject ''backups'' ''commit-abc123.tar.gz'', EvUnlock]
   \<and> snd (RunBackup w_putfail ''/repo'' ''abc123'' cfg0) =
       Some ''failed to upload to S3 (s3://backups/commit-abc123.tar.gz): connection reset''"
proof -
  have a: "\<not> processingMu st0" "repoPath st0 = ''/repo''" "lastKnownHash st0 = ''000aaa''"
    "appBackup st0 = cfg0"
    by (simp_all add: st0_def)
  have h0: "headCommit w0 ''/repo'' = Inr ''abc123''"
    and h1: "headCommit w_putfail ''/repo'' = Inr ''abc123''"
    by (simp_all add: w0_def w_putfail_def)
  note 1 = advance_kept_after_enumeration
    [of st0 w0 "''abc123''" "[''README.md'', ''docs/notes.txt'']"]
  note 2 = advance_kept_after_enumeration
    [of st0 w_putfail "''abc123''" "[''README.md'']"]
  show ?thesis
    using 1 2 a h0 h1 w0_listing w0_invalid w_putfail_listing w_putfail_valid
    by (simp add: w_putfail_backup)
qed

text \<open>
  C5. A cycle entered while the mutex is held returns at once: it only writes a log
  line, so the tracked hash and the trace are unchanged (no validation, no backup, no
  event at all), the mutex stays with its holder, and nothing in the state remembers the
  dropped cycle. A cycle entered while the mutex is free takes it first and releases it
  last on every path: its events are the lock, events that are neither a lock nor an
  unlock, and the unlock, and the mutex is free afterwards.
\<close>

theorem single_flight_token:
  "(processingMu st \<longrightarrow>
      handleCommitCheck w st = logf ''Monitor: Commit check already in progress, skipping.'' st
      \<and> lastKnownHash (handleCommitCheck w st) = lastKnownHash st
      \<and> trace (handleCommitCheck w st) = trace st
      \<and> processingMu (handleCommitCheck w st))
   \<and> (\<not> processingMu st \<longrightarrow>
      \<not> processingMu (handleCommitCheck w st)
      \<and> (\<exists>mid. trace (handleCommitCheck w st) = trace st @ [EvLock] @ mid @ [EvUnlock]
                \<and> EvLock \<notin> set mid \<and> EvUnlock \<notin> set mid))"
proof (intro conjI impI)
  assume busy: "processingMu st"
  then show "handleCommitCheck w st = logf ''Monitor: Commit check already in progress, skipping.'' st"
    by (simp add: handleCommitCheck_def)
  then show "lastKnownHash (handleCommitCheck w st) = lastKnownHash st"
    and "trace (handleCommitCheck w st) = trace st"
    and "processingMu (handleCommitCheck w st)"
    using busy by (simp_all add: logf_fields)
next
  assume free: "\<not> processingMu st"
  then show "\<not> processingMu (handleCommitCheck w st)"
    by (simp add: handle_free_fields)
  have "trace (handleCommitCheck w st) = trace st @ [EvLock] @ bodyEvents w st @ [EvUnlock]"
    using free by (simp add: handle_free_trace)
  with bodyEvents_no_lock [of w st]
  show "\<exists>mid. trace (handleCommitCheck w st) = trace st @ [EvLock] @ mid @ [EvUnlock]
                \<and> EvLock \<notin> set mid \<and> EvUnlock \<notin> set mid"
    by blast
qed

theorem single_flight_token_witness:
  "handleCommitCheck w0 (st0\<lparr>processingMu := True\<rparr>) =
     logf ''Monitor: Commit check already in progress, skipping.'' (st0\<lparr>processingMu := True\<rparr>)
   \<and> lastKnownHash (handleCommitCheck w0 (st0\<lparr>processingMu := True\<rparr>)) = ''000aaa''
   \<and> trace (handleCommitCheck w0 (st0\<lparr>processingMu := True\<rparr>)) = []
   \<and> \<not> processingMu (handleCommitCheck w0 st0)"
  using single_flight_token [of "st0\<lparr>processingMu := True\<rparr>" w0]
    single_flight_token [of st0 w0]
  by (simp add: st0_def logf_fields)

section \<open>The end-to-end example\<close>

lemma claimed_files_checked:
  "errors (foldl (\<lambda>st file. checkFile file st) \<lparr>errors = [], isValid = True\<rparr> claimed_files)
     = [song_violation]"
  "isValid (foldl (\<lambda>st file. checkFile file st) \<lparr>errors = [], isValid = True\<rparr> claimed_files)
     = False"
  by code_simp+

lemma named_files_checked:
  "errors (foldl (\<lambda>st file. checkFile file st) \<lparr>errors = [], isValid = True\<rparr> named_files) = []"
  "isValid (foldl (\<lambda>st file. checkFile file st) \<lparr>errors = [], isValid = True\<rparr> named_files)
     = True"
  by code_simp+

lemma claimed_files_rejected:
  assumes "C rp ''README.md''" and "C rp ''.gitignore''"
  shows "Validate C rp claimed_files = (False, [song_violation])"
proof -
  have "claimed_files \<noteq> []" by (simp add: claimed_files_def)
  then show ?thesis
    using assms by (simp add: Validate_eq Let_def addErrorIf_def claimed_files_checked)
qed

lemma named_files_accepted:
  assumes "C rp ''README.md''" and "C rp ''.gitignore''"
  shows "Validate C rp named_files = (True, [])"
proof -
  have "named_files \<noteq> []" by (simp add: named_files_def)
  then show ?thesis
    using assms by (simp add: Validate_eq Let_def addErrorIf_def named_files_checked)
qed

lemma RunBackup_success:
  assumes "Bucket cfg \<noteq> []" and "strings_Trim (Prefix cfg) ''/'' = []"
    and "loadDefaultConfig w cfg = None" and "stdoutPipe w = None" and "cmdStart w = None"
    and "\<forall>body. putObject w (Bucket cfg) (backupFilename h) body = None"
    and "cmdWait w = None"
  shows "RunBackup w rp h cfg = ([EvPutObject (Bucket cfg) (backupFilename h)], None)"
proof -
  have "s3Key (Prefix cfg) h = backupFilename h"
    using assms(2) by (simp add: s3Key_def Let_def)
  then show ?thesis
    using assms by (simp add: RunBackup_def Let_def)
qed

text \<open>
  C3, as the specification states it, fails: for commit \<open>abc123\<close> with the changed
  files \<open>README.md\<close> and \<open>src/projects/song-artist-feat-x-120bpm-prodby.me/song.flp\<close>
  (both required root files in the index) the validator returns false with one
  violation, the project file not being named after its folder, and the cycle ends
  after the validation: \<open>RunBackup\<close> is not called and nothing is put.
\<close>

theorem end_to_end_song_flp_rejected:
  "Validate (CheckFileExists w_song) ''/repo'' claimed_files = (False, [song_violation])
   \<and> GetChangedFilesInCommit (gitShow w_song) ''/repo'' ''abc123'' = Inr claimed_files
   \<and> cycleEvents w_song st0 =
       [EvLock, EvQueryHead, EvAssign ''abc123'', EvChangedFiles ''abc123'',
        EvValidate claimed_files, EvUnlock]"
proof -
  let ?out = "''M'' @ [CHR 0x09] @ ''README.md'' @ [CHR 0x0A] @
      ''A'' @ [CHR 0x09] @ ''src/projects/'' @ song_folder @ ''/song.flp'' @ [CHR 0x0A]"
  have v: "Validate (CheckFileExists w_song) ''/repo'' claimed_files = (False, [song_violation])"
    by (rule claimed_files_rejected) (simp_all add: w_song_def w0_def)
  have "\<not> scanTooLong ?out"
    by (rule scanTooLong_short) (simp add: MaxScanTokenSize_def song_folder_def)
  moreover have "foldl parseLine [] (ScanLines ?out) = claimed_files"
    by code_simp
  ultimately have l: "GetChangedFilesInCommit (gitShow w_song) ''/repo'' ''abc123'' = Inr claimed_files"
    by (simp add: GetChangedFilesInCommit_def w_song_def)
  have "cycleEvents w_song st0 =
       [EvLock, EvQueryHead, EvAssign ''abc123'', EvChangedFiles ''abc123'',
        EvValidate claimed_files, EvUnlock]"
    using v l by (simp add: cycleEvents_free bodyEvents_def backupEvents_def st0_def w_song_def w0_def)
  with v l show ?thesis by simp
qed

text \<open>
  C3, amended. For a new commit \<open>abc123\<close> in a repository with \<open>README.md\<close> and
  \<open>.gitignore\<close> in its index, with a bucket configured, a key prefix that is empty
  after trimming slashes, and collaborators that succeed: the changed files
  \<open>README.md\<close> and \<open>.../song.flp\<close> are rejected (one violation, no backup event),
  and the changed files \<open>README.md\<close> and the project file named after its folder,
  \<open>.../song-artist-feat-x-120bpm-prodby.me.flp\<close>, pass validation, after which the
  cycle calls \<open>PutObject\<close> exactly once, with key \<open>commit-abc123.tar.gz\<close>, and
  \<open>RunBackup\<close> returns no error.
\<close>

theorem end_to_end_project_file_named_after_folder:
  assumes "\<not> processingMu st"
    and "headCommit w (repoPath st) = Inr ''abc123''"
    and "lastKnownHash st \<noteq> ''abc123''"
    and "GetChangedFilesInCommit (gitShow w) (repoPath st) ''abc123'' = Inr files"
    and "CheckFileExists w (repoPath st) ''README.md''"
    and "CheckFileExists w (repoPath st) ''.gitignore''"
    and "Bucket (appBackup st) \<noteq> []"
    and "strings_Trim (Prefix (appBackup st)) ''/'' = []"
    and "loadDefaultConfig w (appBackup st) = None"
    and "stdoutPipe w = None" and "cmdStart w = None" and "cmdWait w = None"
    and "\<forall>body. putObject w (Bucket (appBackup st)) ''commit-abc123.tar.gz'' body = None"
  shows "(files = claimed_files \<longrightarrow>
            Validate (CheckFileExists w) (repoPath st) files = (False, [song_violation])
            \<and> cycleEvents w st =
                [EvLock, EvQueryHead, EvAssign ''abc123'', EvChangedFiles ''abc123'',
                 EvValidate files, EvUnlock])
       \<and> (files = named_files \<longrightarrow>
            Validate (CheckFileExists w) (repoPath st) files = (True, [])
            \<and> cycleEvents w st =
                [EvLock, EvQueryHead, EvAssign ''abc123'', EvChangedFiles ''abc123'',
                 EvValidate files, EvRunBackup ''abc123'',
                 EvPutObject (Bucket (appBackup st)) ''commit-abc123.tar.gz'', EvUnlock]
            \<and> snd (RunBackup w (repoPath st) ''abc123'' (appBackup st)) = None)"
proof -
  have run: "RunBackup w (repoPath st) ''abc123'' (appBackup st) =
      ([EvPutObject (Bucket (appBackup st)) (backupFilename ''abc123'')], None)"
    by (rule RunBackup_success) (use assms in \<open>simp_all add: backupFilename_def\<close>)
  have ev: "cycleEvents w st =
      EvLock # EvQueryHead # EvAssign ''abc123'' # EvChangedFiles ''abc123'' # EvValidate files #
      backupEvents w st ''abc123'' files @ [EvUnlock]"
    using assms(1-4) by (simp add: cycleEvents_free bodyEvents_def)
  show ?thesis
  proof (intro conjI impI)
    assume f: "files = claimed_files"
    show v: "Validate (CheckFileExists w) (repoPath st) files = (False, [song_violation])"
      unfolding f by (rule claimed_files_rejected) (use assms in simp_all)
    show "cycleEvents w st =
        [EvLock, EvQueryHead, EvAssign ''abc123'', EvChangedFiles ''abc123'',
         EvValidate files, EvUnlock]"
      using ev v by (simp add: backupEvents_def)
  next
    assume f: "files = named_files"
    show v: "Validate (CheckFileExists w) (repoPath st) files = (True, [])"
      unfolding f by (rule named_files_accepted) (use assms in simp_all)
    show "cycleEvents w st =
        [EvLock, EvQueryHead, EvAssign ''abc123'', EvChangedFiles ''abc123'',
         EvValidate files, EvRunBackup ''abc123'',
         EvPutObject (Bucket (appBackup st)) ''commit-abc123.tar.gz'', EvUnlock]"
      using ev v run by (simp add: backupEvents_def backupFilename_def)
    show "snd (RunBackup w (repoPath st) ''abc123'' (appBackup st)) = None"
      using run by simp
  qed
qed

lemma w_named_listing:
  "GetChangedFilesInCommit (gitShow w_named) ''/repo'' ''abc123'' = Inr named_files"
proof -
  let ?out = "''M'' @ [CHR 0x09] @ ''README.md'' @ [CHR 0x0A] @
      ''A'' @ [CHR 0x09] @ ''src/projects/'' @ song_folder @ ''/'' @ song_folder @ ''.flp'' @
      [CHR 0x0A]"
  have "\<not> scanTooLong ?out"
    by (rule scanTooLong_short) (simp add: MaxScanTokenSize_def song_folder_def)
  moreover have "foldl parseLine [] (ScanLines ?out) = named_files"
    by code_simp
  ultimately show ?thesis
    by (simp add: GetChangedFilesInCommit_def w_named_def)
qed

theorem end_to_end_project_file_named_after_folder_witness:
  "Validate (CheckFileExists w_named) ''/repo'' named_files = (True, [])
   \<and> cycleEvents w_named st0 =
       [EvLock, EvQueryHead, EvAssign ''abc123'', EvChangedFiles ''abc123'',
        EvValidate named_files, EvRunBackup ''abc123'',
        EvPutObject ''backups'' ''commit-abc123.tar.gz'', EvUnlock]
   \<and> snd (RunBackup w_named ''/repo'' ''abc123'' cfg0) = None"
proof -
  have a: "\<not> processingMu st0" "repoPath st0 = ''/repo''" "lastKnownHash st0 = ''000aaa''"
    "appBackup st0 = cfg0"
    by (simp_all add: st0_def)
  have trim: "strings_Trim (Prefix cfg0) ''/'' = []"
    by (simp add: cfg0_def strings_Trim_def)
  note 1 = end_to_end_project_file_named_after_folder [of st0 w_named named_files]
  show ?thesis
    using 1 a trim w_named_listing
    by (simp add: w_named_def w0_def cfg0_def)
qed

section \<open>Properties of the startup\<close>


lemma wlogf_wlog: "wlog (wlogf m wt) = wlog wt @ [m]"
  by (simp add: wlogf_def)














lemma Start_fatal_iff:
  "(\<exists>msg. Start w rp = Fatal msg) \<longleftrightarrow>
     stat w (filepath_Join [rp, ''.git'']) = StatNotExist \<or> newWatcher w \<noteq> None"
  by (auto simp: Start_def Let_def split: prod.splits option.splits)

























text \<open>
  The startup in which \<open>os.Stat\<close> fails on both paths with an error other than
  "does not exist": no watch is added, nothing is counted, the summary warning is not
  logged, and the event loop is entered.
\<close>

lemma Start_stat_error_example:
  "Start w_staterr ''/repo'' =
     EventLoop ''000aaa'' 0
       \<lparr>watchList = [],
        wlog =
          [''Monitor: Starting monitoring for repo: /repo'',
           ''Monitor: Initial commit hash: 000aaa'',
           ''Monitor Warning: Path /repo/.git does not exist, skipping watch.'',
           ''Monitor Warning: Path /repo/.git/refs does not exist, skipping watch.'',
           ''Monitor: Watcher started. Waiting for Git activity...'']\<rparr>"
  by code_simp

section \<open>Properties of the compression stage\<close>

lemma gz_emit_open:
  "\<not> rclosed p \<Longrightarrow> snd (gz_emit p bytes) = None \<and> \<not> rclosed (fst (gz_emit p bytes))
     \<and> wclosed (fst (gz_emit p bytes)) = wclosed p"
  by (simp add: gz_emit_def pw_Write_def)

lemma io_Copy_open:
  "\<not> rclosed p \<Longrightarrow>
     snd (snd (io_Copy gw g p chunks ending)) = ending
     \<and> \<not> rclosed (fst (snd (io_Copy gw g p chunks ending)))
     \<and> wclosed (fst (snd (io_Copy gw g p chunks ending))) = wclosed p"
proof (induction chunks arbitrary: g p)
  case Nil
  then show ?case by simp
next
  case (Cons chunk chunks)
  obtain g' bytes where w: "gw g chunk = (g', bytes)"
    by (cases "gw g chunk")
  obtain p' r where e: "gz_emit p bytes = (p', r)"
    by (cases "gz_emit p bytes")
  from gz_emit_open [OF Cons.prems, of bytes] e
  have "r = None" "\<not> rclosed p'" "wclosed p' = wclosed p" by simp_all
  with Cons.IH [of p' g'] w e show ?case by simp
qed

lemma transform_open:
  assumes "\<not> rclosed p" and "wclosed p = None"
  shows "wclosed (transform gw gc g0 (chunks, ending) p) = Some ending"
proof -
  obtain g p1 err where c: "io_Copy gw g0 p chunks ending = (g, p1, err)"
    by (cases "io_Copy gw g0 p chunks ending")
  from io_Copy_open [OF assms(1), of gw g0 chunks ending] c assms(2)
  have 1: "err = ending" "\<not> rclosed p1" "wclosed p1 = None" by simp_all
  obtain p2 cerr where e: "gz_emit p1 (gc g) = (p2, cerr)"
    by (cases "gz_emit p1 (gc g)")
  from gz_emit_open [OF 1(2), of "gc g"] e 1(3)
  have 2: "cerr = None" "wclosed p2 = None" by simp_all
  show ?thesis
    using c e 1 2 by (simp add: transform_def pw_CloseWithError_def)
qed

lemma sink_reads_closed:
  "wclosed p = Some ending \<Longrightarrow> queue p = ds \<Longrightarrow>
     sink_reads (Suc (length ds)) p =
       map Data ds @ [case ending of None \<Rightarrow> EOF | Some e \<Rightarrow> Failed e]"
proof (induction ds arbitrary: p)
  case Nil
  then show ?case by (simp add: pr_Read_def split: option.splits)
next
  case (Cons d ds)
  have "sink_reads (Suc (length ds)) (p\<lparr>queue := ds\<rparr>) =
       map Data ds @ [case ending of None \<Rightarrow> EOF | Some e \<Rightarrow> Failed e]"
    by (rule Cons.IH) (use Cons.prems in simp_all)
  with Cons.prems show ?case by (simp add: pr_Read_def)
qed

lemma body_reads_closed:
  "wclosed p = Some ending \<Longrightarrow>
     body_reads p = map Data (queue p) @ [case ending of None \<Rightarrow> EOF | Some e \<Rightarrow> Failed e]"
  unfolding body_reads_def by (rule sink_reads_closed) simp_all

text \<open>
  C6. When the source's read fails with \<open>e\<close> (after any number of chunks, with any
  compressor, the read end being open), the goroutine closes the write end of the pipe
  with \<open>e\<close>, and a reader of the read end sees the data written so far and then the
  failure \<open>e\<close>, not the end of the data; a clean end of the stream is seen only when
  the source ended without an error.
\<close>

theorem GzipPipe_read_error_poisons_pipe:
  "wclosed (GzipPipe gw gc g0 (chunks, Some e)) = Some (Some e)
   \<and> body_reads (GzipPipe gw gc g0 (chunks, Some e)) =
       map Data (queue (GzipPipe gw gc g0 (chunks, Some e))) @ [Failed e]
   \<and> body_reads (GzipPipe gw gc g0 (chunks, None)) =
       map Data (queue (GzipPipe gw gc g0 (chunks, None))) @ [EOF]"
proof -
  have w: "wclosed (GzipPipe gw gc g0 (chunks, ending)) = Some ending" for ending
    unfolding GzipPipe_def by (rule transform_open) (simp_all add: io_Pipe_def)
  show ?thesis
    using w [of "Some e"] w [of None] by (simp add: body_reads_closed)
qed

lemma GzipPipe_example:
  "body_reads (GzipPipe (\<lambda>g bytes. (g, bytes)) (\<lambda>g. ''trailer'') () ([''ab'', ''cd''], Some ''broken pipe''))
     = [Data ''ab'', Data ''cd'', Data ''trailer'', Failed ''broken pipe'']"
  by code_simp

section \<open>Properties of the changed-files listing\<close>

lemma split_char_append:
  "c \<notin> set xs \<Longrightarrow> split_char c (xs @ c # ys) = xs # split_char c ys"
  by (induction xs) (auto split: list.splits)

lemma render_plain: "wf_line l \<Longrightarrow> CHR 0x0A \<notin> set (render l)"
  by (cases l) (auto simp: wf_status_def wf_last_path_def plain_def is_space_def)

lemma split_listing:
  "list_all wf_line ls \<Longrightarrow> split_char CHR 0x0A (listing ls) = map render ls @ [[]]"
proof (induction ls)
  case Nil
  then show ?case by (simp add: listing_def)
next
  case (Cons l ls)
  then have "CHR 0x0A \<notin> set (render l)" by (simp add: render_plain)
  then have "split_char CHR 0x0A (render l @ CHR 0x0A # listing ls) = render l # split_char CHR 0x0A (listing ls)"
    by (rule split_char_append)
  with Cons show ?case by (simp add: listing_def)
qed

lemma render_ends:
  assumes "wf_line l"
  shows "render l \<noteq> []" and "\<not> is_space (hd (render l))" and "\<not> is_space (last (render l))"
  using assms by (cases l; simp add: wf_status_def wf_last_path_def)+

lemma dropCR_render: "wf_line l \<Longrightarrow> dropCR (render l) = render l"
  using render_ends(3) [of l] by (auto simp: dropCR_def is_space_def)

lemma ScanLines_listing:
  assumes "list_all wf_line ls"
  shows "ScanLines (listing ls) = map render ls"
proof -
  have "map dropCR (map render ls) = map render ls"
    using assms by (induction ls) (simp_all add: dropCR_render)
  then show ?thesis
    by (simp add: ScanLines_def Let_def split_listing [OF assms])
qed

lemma TrimSpace_render: "wf_line l \<Longrightarrow> strings_TrimSpace (render l) = render l"
proof -
  assume wf: "wf_line l"
  have 1: "dropWhile is_space (render l) = render l"
    by (rule dropWhile_keeps) (simp add: render_ends(2) [OF wf])
  have 2: "dropWhile is_space (rev (render l)) = rev (render l)"
    by (rule dropWhile_keeps) (simp add: render_ends [OF wf] hd_rev)
  show ?thesis by (simp add: strings_TrimSpace_def 1 2)
qed

lemma takeWhile_upto:
  "c \<notin> set s \<Longrightarrow> takeWhile (\<lambda>x. x \<noteq> c) (s @ c # r) = s"
  by (induction s) auto

lemma dropWhile_upto:
  "c \<notin> set s \<Longrightarrow> dropWhile (\<lambda>x. x \<noteq> c) (s @ c # r) = c # r"
  by (induction s) auto

lemma splitN_2:
  "c \<notin> set s \<Longrightarrow> splitN_char c 2 (s @ c # rest) = [s, rest]"
  by (simp add: numeral_2_eq_2 takeWhile_upto dropWhile_upto)

lemma splitN_3:
  assumes "c \<notin> set s" and "c \<notin> set a"
  shows "splitN_char c 3 (s @ c # a @ c # rest) = [s, a, rest]"
proof -
  have "splitN_char c (Suc (Suc (Suc 0))) (s @ c # (a @ c # rest)) =
      s # splitN_char c (Suc (Suc 0)) (a @ c # rest)"
    using assms(1) by (simp add: takeWhile_upto dropWhile_upto)
  also have "splitN_char c (Suc (Suc 0)) (a @ c # rest) = [a, rest]"
    using assms(2) by (simp add: takeWhile_upto dropWhile_upto)
  finally show ?thesis by (simp add: numeral_3_eq_3)
qed

lemma parseLine_render:
  assumes "wf_line l"
  shows "parseLine files (render l) = files @ spec_contribution l"
proof (cases l)
  case (Changed s p)
  with assms have s: "CHR 0x09 \<notin> set s"
    by (simp add: wf_status_def plain_def is_space_def)
  have 2: "splitN_char CHR 0x09 2 (s @ CHR 0x09 # p) = [s, p]"
    by (rule splitN_2 [OF s])
  show ?thesis
    using assms Changed TrimSpace_render [OF assms] 2
    by (simp add: parseLine_def Let_def is_space_def)
next
  case (Moved s old new)
  with assms have s: "CHR 0x09 \<notin> set s" and o: "CHR 0x09 \<notin> set old"
    by (simp_all add: wf_status_def plain_def is_space_def)
  have 2: "splitN_char CHR 0x09 2 (s @ CHR 0x09 # (old @ CHR 0x09 # new)) = [s, old @ CHR 0x09 # new]"
    by (rule splitN_2 [OF s])
  have 3: "splitN_char CHR 0x09 3 (s @ CHR 0x09 # old @ CHR 0x09 # new) = [s, old, new]"
    by (rule splitN_3 [OF s o])
  show ?thesis
    using assms Moved TrimSpace_render [OF assms] 2 3
    by (auto simp: parseLine_def Let_def is_space_def)
qed

lemma foldl_parseLine:
  "list_all wf_line ls \<Longrightarrow>
     foldl parseLine files (map render ls) = files @ spec_ChangeSet ls"
  by (induction ls arbitrary: files) (simp_all add: spec_ChangeSet_def parseLine_render)

text \<open>
  On every listing of well-formed lines, the parser returns the specification's ChangeSet.
  A line is well-formed (\<open>wf_line\<close>) when its status is not empty and starts with an
  ASCII character that is not white space, a status that starts with \<open>R\<close> or
  \<open>C\<close> comes with two paths and any other status with one, no field holds a tab or a
  line break, and the last path is not empty and ends with an ASCII character that is not
  white space. Other lines are outside the lemma: a line whose status starts with
  \<open>R\<close> or \<open>C\<close> and that has one path contributes nothing, and a line that starts
  or ends with white space is trimmed before it is split.
\<close>

lemma parser_refines_spec:
  assumes "list_all wf_line ls" and "length (listing ls) < MaxScanTokenSize"
  shows "GetChangedFilesInCommit (\<lambda>rp h. Inr (listing ls)) repo commit = Inr (spec_ChangeSet ls)"
  using assms scanTooLong_short [OF assms(2)]
  by (simp add: GetChangedFilesInCommit_def ScanLines_listing foldl_parseLine [of ls "[]", simplified])

text \<open>
  C7. A path that ends in white space is not returned as it stands. The listing of a
  commit that adds a file named \<open>notes \<close>, with a trailing space, has the line
  \<open>A<TAB>notes <NEWLINE>\<close>; \<open>GetChangedFilesInCommit\<close> trims the line before
  it splits it, so the path it returns for that line is \<open>notes\<close>, which is not the
  path of the line.
\<close>

theorem changed_files_trailing_space_dropped:
  "GetChangedFilesInCommit (\<lambda>rp h. Inr (''A'' @ [CHR 0x09] @ ''notes '' @ [CHR 0x0A]))
     ''/repo'' ''abc123'' = Inr [''notes'']"
proof -
  let ?out = "''A'' @ [CHR 0x09] @ ''notes '' @ [CHR 0x0A]"
  have "\<not> scanTooLong ?out"
    by (rule scanTooLong_short) (simp add: MaxScanTokenSize_def)
  moreover have "foldl parseLine [] (ScanLines ?out) = [''notes'']"
    by code_simp
  ultimately show ?thesis
    by (simp add: GetChangedFilesInCommit_def)
qed

text \<open>
  A line whose status starts with \<open>R\<close> and that has a single path, which
  \<open>git show\<close> does not print, contributes nothing (lines 309 to 313).
\<close>

lemma changed_files_rename_without_source_skipped:
  "GetChangedFilesInCommit (\<lambda>rp h. Inr (''RM'' @ [CHR 0x09] @ ''new.txt'' @ [CHR 0x0A]))
     ''/repo'' ''abc123'' = Inr []"
proof -
  let ?out = "''RM'' @ [CHR 0x09] @ ''new.txt'' @ [CHR 0x0A]"
  have "\<not> scanTooLong ?out"
    by (rule scanTooLong_short) (simp add: MaxScanTokenSize_def)
  moreover have "foldl parseLine [] (ScanLines ?out) = []"
    by code_simp
  ultimately show ?thesis
    by (simp add: GetChangedFilesInCommit_def)
qed

end
